theory Spec2Isabelle
  imports Complex_Main "HOL-Library.Sublist"
begin

section \<open>Data model\<close>

text \<open>
  JavaScript numbers are modelled as real numbers: finite and exact. Rounding of IEEE
  doubles is outside the model. The places where the source can leave the finite
  numbers (\<open>Math.min()\<close> of no arguments, a division by zero) are written out as
  separate results below.
\<close>

text \<open>\<open>ChartOHLC\<close>: one candle; \<open>volume\<close> is optional in the source.\<close>

record candle =
  time :: int
  "open" :: real
  high :: real
  low :: real
  close :: real
  volume :: "real option"

text \<open>\<open>ChartOptions.scale\<close>; every field is optional in the source.\<close>

record scale_options =
  scale_x :: "real option"
  scale_y :: "real option"
  autoScale :: "bool option"
  minScale :: "real option"
  maxScale :: "real option"

text \<open>\<open>PriceRange\<close> of \<open>renderer/types\<close>.\<close>

record price_range =
  minPrice :: real
  maxPrice :: real
  priceRange :: real

section \<open>Scaling: \<open>calculatePriceRange\<close> (renderer/utils.ts)\<close>

text \<open>
  \<open>Math.min(...prices)\<close> and \<open>Math.max(...prices)\<close>. With no argument they return
  \<open>Infinity\<close> and \<open>-Infinity\<close>, which are not real numbers: \<open>None\<close>.
\<close>

fun Math_min :: "real list \<Rightarrow> real option" where
  "Math_min [] = None"
| "Math_min (p # ps) = Some (fold min ps p)"

fun Math_max :: "real list \<Rightarrow> real option" where
  "Math_max [] = None"
| "Math_max (p # ps) = Some (fold max ps p)"

text \<open>
  \<open>ohlc.flatMap(candle => [candle.high, candle.low])\<close>, for candles and for the
  records that extend them.
\<close>

definition prices :: "'a candle_scheme list \<Rightarrow> real list" where
  "prices ohlc = concat (map (\<lambda>candle. [high candle, low candle]) ohlc)"

text \<open>
  The truth value of an optional number in a condition (\<open>if (config.scale?.x)\<close>):
  absent and \<open>0\<close> are falsy.
\<close>

fun truthy_number :: "real option \<Rightarrow> bool" where
  "truthy_number None = False"
| "truthy_number (Some k) = (k \<noteq> 0)"

fun truthy_bool :: "bool option \<Rightarrow> bool" where
  "truthy_bool None = False"
| "truthy_bool (Some b) = b"

text \<open>
  The body of \<open>calculatePriceRange\<close> after the two extremes are known; \<open>scale\<close> is
  \<open>config.scale\<close>, \<open>None\<close> when the configuration has no scale object (each
  \<open>config.scale?.f\<close> is then \<open>undefined\<close>).
\<close>

definition scaleField :: "scale_options option \<Rightarrow> (scale_options \<Rightarrow> 'a option) \<Rightarrow> 'a option" where
  "scaleField scale f = (case scale of None \<Rightarrow> None | Some s \<Rightarrow> f s)"

definition applyAutoScale :: "scale_options option \<Rightarrow> real \<times> real \<Rightarrow> real \<times> real" where
  "applyAutoScale scale b =
     (case b of (lo, hi) \<Rightarrow>
        if truthy_bool (scaleField scale autoScale) then
          (let padding = 0.05; rng = hi - lo
           in (lo - rng * padding, hi + rng * padding))
        else (lo, hi))"

text \<open>The centred rescale, used for \<open>scale.x\<close> and then again for \<open>scale.y\<close>.\<close>

definition applyMultiplier :: "real option \<Rightarrow> real \<times> real \<Rightarrow> real \<times> real" where
  "applyMultiplier k b =
     (case b of (lo, hi) \<Rightarrow>
        if truthy_number k then
          (let center = (lo + hi) / 2; rng = (hi - lo) * the k
           in (center - rng / 2, center + rng / 2))
        else (lo, hi))"

definition applyLimits :: "scale_options option \<Rightarrow> real \<times> real \<Rightarrow> real \<times> real" where
  "applyLimits scale b =
     (case b of (lo, hi) \<Rightarrow>
        (case scaleField scale minScale of None \<Rightarrow> lo | Some m \<Rightarrow> max lo m,
         case scaleField scale maxScale of None \<Rightarrow> hi | Some m \<Rightarrow> min hi m))"

text \<open>
  \<open>calculatePriceRange(ohlc, config)\<close>; of \<open>config\<close> only \<open>config.scale\<close> is read.
  On an empty series the extremes are infinite and the result is \<open>None\<close>
  (\<open>drawChart\<close> returns before the call when the series is empty).
\<close>

definition calculatePriceRange :: "'a candle_scheme list \<Rightarrow> scale_options option \<Rightarrow> price_range option" where
  "calculatePriceRange ohlc scale =
     (case (Math_min (prices ohlc), Math_max (prices ohlc)) of
        (Some lo0, Some hi0) \<Rightarrow>
          (case applyLimits scale
                  (applyMultiplier (scaleField scale scale_y)
                    (applyMultiplier (scaleField scale scale_x)
                      (applyAutoScale scale (lo0, hi0)))) of
             (lo, hi) \<Rightarrow>
               Some \<lparr>minPrice = lo, maxPrice = hi, priceRange = hi - lo\<rparr>)
      | _ \<Rightarrow> None)"

text \<open>
  A configuration with no scale option in effect: no \<open>autoScale\<close>, no \<open>x\<close> or \<open>y\<close>
  multiplier, no \<open>minScale\<close> or \<open>maxScale\<close>.
\<close>

definition noScaleOptions :: "scale_options option \<Rightarrow> bool" where
  "noScaleOptions scale =
     (\<not> truthy_bool (scaleField scale autoScale) \<and>
      \<not> truthy_number (scaleField scale scale_x) \<and>
      \<not> truthy_number (scaleField scale scale_y) \<and>
      scaleField scale minScale = None \<and> scaleField scale maxScale = None)"

text \<open>Two sample candles and sample scale options, used to instantiate the theorems.\<close>

definition candleA :: candle where
  "candleA = \<lparr>time = 1000, open = 100, high = 110, low = 90, close = 105, volume = None\<rparr>"

definition candleB :: candle where
  "candleB = \<lparr>time = 2000, open = 105, high = 120, low = 95, close = 100, volume = Some 3\<rparr>"

definition scaleAuto :: scale_options where
  "scaleAuto = \<lparr>scale_x = Some 2, scale_y = None, autoScale = Some True,
                 minScale = None, maxScale = Some 130\<rparr>"

section \<open>Pixel coordinates\<close>

text \<open>
  A division in the source can have a zero divisor, and the result is then not a finite
  number. \<open>jsnum\<close> is the result of such an expression: a finite number, an infinity or
  \<open>NaN\<close>. The zero divisors that arise are differences of equal numbers and counts,
  so they are \<open>+0\<close>.
\<close>

datatype jsnum = Finite real | PosInfinity | NegInfinity | NaN

text \<open>\<open>a / b\<close> for finite \<open>a\<close> and \<open>b\<close>.\<close>

definition js_div :: "real \<Rightarrow> real \<Rightarrow> jsnum" where
  "js_div a b =
     (if b \<noteq> 0 then Finite (a / b)
      else if 0 < a then PosInfinity
      else if a < 0 then NegInfinity
      else NaN)"

text \<open>\<open>v * h\<close> and \<open>t + v\<close> for finite \<open>h\<close> and \<open>t\<close>.\<close>

fun js_times :: "jsnum \<Rightarrow> real \<Rightarrow> jsnum" where
  "js_times (Finite a) h = Finite (a * h)"
| "js_times PosInfinity h = (if 0 < h then PosInfinity else if h < 0 then NegInfinity else NaN)"
| "js_times NegInfinity h = (if 0 < h then NegInfinity else if h < 0 then PosInfinity else NaN)"
| "js_times NaN h = NaN"

fun js_plus :: "real \<Rightarrow> jsnum \<Rightarrow> jsnum" where
  "js_plus t (Finite a) = Finite (t + a)"
| "js_plus t PosInfinity = PosInfinity"
| "js_plus t NegInfinity = NegInfinity"
| "js_plus t NaN = NaN"

text \<open>
  \<open>ChartDimensions\<close>; the nested \<open>margin\<close> object is flattened into four fields.
\<close>

record ChartDimensions =
  width :: real
  height :: real
  margin_top :: real
  margin_bottom :: real
  margin_left :: real
  margin_right :: real
  chartWidth :: real
  chartHeight :: real

text \<open>
  The projection of a price onto a pixel row, as every renderer writes it:
  \<open>margin.top + ((maxPrice - price) / priceRange) * chartHeight\<close>.
\<close>

definition pixelY :: "ChartDimensions \<Rightarrow> real \<Rightarrow> real \<Rightarrow> real \<Rightarrow> jsnum" where
  "pixelY dimensions maxP rangeP price =
     js_plus (margin_top dimensions) (js_times (js_div (maxP - price) rangeP) (chartHeight dimensions))"

text \<open>\<open>Math.abs(v)\<close>, \<open>v >= b\<close>, \<open>v / b\<close> and \<open>Math.floor(v)\<close> for finite \<open>b\<close>.\<close>

fun js_abs :: "jsnum \<Rightarrow> jsnum" where
  "js_abs (Finite a) = Finite \<bar>a\<bar>"
| "js_abs PosInfinity = PosInfinity"
| "js_abs NegInfinity = PosInfinity"
| "js_abs NaN = NaN"

fun js_ge :: "jsnum \<Rightarrow> real \<Rightarrow> bool" where
  "js_ge (Finite a) b = (b \<le> a)"
| "js_ge PosInfinity b = True"
| "js_ge NegInfinity b = False"
| "js_ge NaN b = False"

fun js_quot :: "jsnum \<Rightarrow> real \<Rightarrow> jsnum" where
  "js_quot (Finite a) b = js_div a b"
| "js_quot PosInfinity b = (if 0 \<le> b then PosInfinity else NegInfinity)"
| "js_quot NegInfinity b = (if 0 \<le> b then NegInfinity else PosInfinity)"
| "js_quot NaN b = NaN"

fun js_floor :: "jsnum \<Rightarrow> jsnum" where
  "js_floor (Finite a) = Finite (of_int \<lfloor>a\<rfloor>)"
| "js_floor PosInfinity = PosInfinity"
| "js_floor NegInfinity = NegInfinity"
| "js_floor NaN = NaN"

section \<open>Heikin-Ashi: \<open>HeikinAshiRenderer.calculateHeikinAshi\<close>\<close>

text \<open>
  The body of the loop at index \<open>i\<close>: the candle pushed onto \<open>ha\<close>, the list built
  so far. At step \<open>i\<close> the list has \<open>i\<close> elements, so \<open>ha[i - 1]\<close> is its last one.
\<close>

definition haCandle :: "candle list \<Rightarrow> nat \<Rightarrow> candle list \<Rightarrow> candle" where
  "haCandle ohlc i ha =
     (let candle = ohlc ! i in
      if i = 0 then
        \<lparr>time = time candle, open = open candle, high = high candle,
         low = low candle, close = close candle, volume = volume candle\<rparr>
      else
        (let prev = ha ! (i - 1);
             haClose = (open candle + high candle + low candle + close candle) / 4;
             haOpen = (open prev + close prev) / 2;
             haHigh = max (high candle) (max haOpen haClose);
             haLow = min (low candle) (min haOpen haClose)
         in \<lparr>time = time candle, open = haOpen, high = haHigh,
             low = haLow, close = haClose, volume = volume candle\<rparr>))"

text \<open>The loop \<open>for (let i = 0; i < ohlc.length; i++)\<close>.\<close>

function haLoop :: "candle list \<Rightarrow> nat \<Rightarrow> candle list \<Rightarrow> candle list" where
  "haLoop ohlc i ha =
     (if i < length ohlc then haLoop ohlc (i + 1) (ha @ [haCandle ohlc i ha]) else ha)"
  by pat_completeness auto
termination
  by (relation "measure (\<lambda>(ohlc, i, ha). length ohlc - i)") auto

declare haLoop.simps [simp del]

definition calculateHeikinAshi :: "candle list \<Rightarrow> candle list" where
  "calculateHeikinAshi ohlc = haLoop ohlc 0 []"

section \<open>VWAP: \<open>VWAPRenderer.calculateVWAP\<close>\<close>

text \<open>\<open>VWAPData\<close>, a point \<open>{time, value}\<close> of the overlay.\<close>

record VWAPData =
  point_time :: int
  point_value :: real

text \<open>\<open>candle.volume || 0\<close>: an absent volume counts as zero.\<close>

definition candleVolume :: "candle \<Rightarrow> real" where
  "candleVolume candle = (case volume candle of None \<Rightarrow> 0 | Some v \<Rightarrow> v)"

text \<open>\<open>(candle.high + candle.low + candle.close) / 3\<close>\<close>

definition typicalPrice :: "candle \<Rightarrow> real" where
  "typicalPrice candle = (high candle + low candle + close candle) / 3"

text \<open>
  The body of \<open>ohlc.forEach\<close>, on the state \<open>(cumulativeVolumePrice, cumulativeVolume,
  vwapData)\<close>.
\<close>

definition vwapStep :: "real \<times> real \<times> VWAPData list \<Rightarrow> candle \<Rightarrow> real \<times> real \<times> VWAPData list" where
  "vwapStep st candle =
     (case st of (cumulativeVolumePrice, cumulativeVolume, vwapData) \<Rightarrow>
        (let vol = candleVolume candle;
             tp = typicalPrice candle;
             cumulativeVolumePrice' = cumulativeVolumePrice + tp * vol;
             cumulativeVolume' = cumulativeVolume + vol;
             vwap = (if cumulativeVolume' > 0 then cumulativeVolumePrice' / cumulativeVolume' else tp)
         in (cumulativeVolumePrice', cumulativeVolume',
             vwapData @ [\<lparr>point_time = time candle, point_value = vwap\<rparr>])))"

definition calculateVWAP :: "candle list \<Rightarrow> VWAPData list" where
  "calculateVWAP ohlc =
     (if ohlc = [] then []
      else (case foldl vwapStep (0, 0, []) ohlc of (_, _, vwapData) \<Rightarrow> vwapData))"

text \<open>Two candles traded with volumes 1 and 3; their typical prices are 11 and 14.\<close>

definition candleV1 :: candle where
  "candleV1 = \<lparr>time = 1000, open = 10, high = 12, low = 9, close = 12, volume = Some 1\<rparr>"

definition candleV2 :: candle where
  "candleV2 = \<lparr>time = 2000, open = 12, high = 15, low = 12, close = 15, volume = Some 3\<rparr>"

text \<open>Two candles with no volume.\<close>

definition candleZ1 :: candle where
  "candleZ1 = \<lparr>time = 1000, open = 10, high = 12, low = 9, close = 12, volume = Some 0\<rparr>"

definition candleZ2 :: candle where
  "candleZ2 = \<lparr>time = 2000, open = 12, high = 15, low = 12, close = 15, volume = None\<rparr>"

text \<open>
  The point that the running sums over the first \<open>i + 1\<close> candles give; the loop
  invariant of \<open>calculateVWAP\<close> is stated with it.
\<close>

definition vwapPoint :: "candle list \<Rightarrow> nat \<Rightarrow> VWAPData" where
  "vwapPoint ohlc i =
     \<lparr>point_time = time (ohlc ! i),
      point_value =
        (if 0 < sum_list (map candleVolume (take (Suc i) ohlc))
         then sum_list (map (\<lambda>c. typicalPrice c * candleVolume c) (take (Suc i) ohlc)) /
              sum_list (map candleVolume (take (Suc i) ohlc))
         else typicalPrice (ohlc ! i))\<rparr>"

section \<open>Renko: \<open>RenkoRenderer.calculateRenko\<close>\<close>

text \<open>\<open>RenkoBlock extends ChartOHLC\<close>; the bricks are pushed without a volume.\<close>

record RenkoBlock = candle +
  direction :: int

text \<open>
  How a call can fail to return a value: reading a field of \<open>undefined\<close> throws a
  \<open>TypeError\<close>; a loop whose bound is \<open>Infinity\<close> pushes bricks until the process runs
  out of memory.
\<close>

datatype failure = TypeError | Diverges

text \<open>
  The inner loop \<open>for (let j = 0; j < blocksNeeded; j++)\<close>, for a finite number \<open>n\<close> of
  rounds, on the state \<open>(currentPrice, renko)\<close>.
\<close>

fun renkoBlocks :: "nat \<Rightarrow> real \<Rightarrow> int \<Rightarrow> int \<Rightarrow> real \<times> RenkoBlock list \<Rightarrow> real \<times> RenkoBlock list" where
  "renkoBlocks 0 brickSize dir t st = st"
| "renkoBlocks (Suc n) brickSize dir t st =
     (case st of (currentPrice, renko) \<Rightarrow>
        (let newPrice = currentPrice + of_int dir * brickSize * currentPrice
         in renkoBlocks n brickSize dir t
              (newPrice,
               renko @ [\<lparr>time = t, open = currentPrice, high = max currentPrice newPrice,
                         low = min currentPrice newPrice, close = newPrice, volume = None,
                         direction = dir\<rparr>])))"

text \<open>
  The body of the outer loop for one candle. The arithmetic is exact. Where the relative
  change, or its quotient by the brick size, is a whole number of bricks up to the
  rounding of doubles (a move from 98 to 96.04 at 2%, from 10 to 13 at 10%), the source
  can emit one brick fewer or more than this function. The properties below use it on flat
  series, where the change is exactly 0, and on the sample series 100, 103 at 2%, where
  the quotient is 1.5.
\<close>

definition renkoCandle :: "real \<Rightarrow> candle \<Rightarrow> real \<times> RenkoBlock list \<Rightarrow> failure + real \<times> RenkoBlock list" where
  "renkoCandle brickSize candle st =
     (case st of (currentPrice, renko) \<Rightarrow>
        (let priceChange = close candle - currentPrice;
             priceChangePercent = js_abs (js_div priceChange currentPrice)
         in if js_ge priceChangePercent brickSize then
              (let blocksNeeded = js_floor (js_quot priceChangePercent brickSize);
                   dir = (if priceChange > 0 then 1 else - 1)
               in case blocksNeeded of
                    Finite n \<Rightarrow> Inr (renkoBlocks (nat \<lfloor>n\<rfloor>) brickSize dir (time candle) st)
                  | PosInfinity \<Rightarrow> Inl Diverges
                  | NegInfinity \<Rightarrow> Inr st
                  | NaN \<Rightarrow> Inr st)
            else Inr st))"

text \<open>The outer loop \<open>for (let i = 1; i < ohlc.length; i++)\<close>.\<close>

function renkoLoop :: "real \<Rightarrow> candle list \<Rightarrow> nat \<Rightarrow> real \<times> RenkoBlock list \<Rightarrow> failure + RenkoBlock list" where
  "renkoLoop brickSize ohlc i st =
     (if i < length ohlc then
        (case renkoCandle brickSize (ohlc ! i) st of
           Inl e \<Rightarrow> Inl e
         | Inr st' \<Rightarrow> renkoLoop brickSize ohlc (i + 1) st')
      else Inr (snd st))"
  by pat_completeness auto
termination
  by (relation "measure (\<lambda>(brickSize, ohlc, i, st). length ohlc - i)") auto

declare renkoLoop.simps [simp del]

text \<open>
  \<open>calculateRenko(ohlc, brickSize)\<close>. On an empty series \<open>ohlc[0].close\<close> throws.
\<close>

definition calculateRenko :: "candle list \<Rightarrow> real \<Rightarrow> failure + RenkoBlock list" where
  "calculateRenko ohlc brickSize =
     (case ohlc of
        [] \<Rightarrow> Inl TypeError
      | first # _ \<Rightarrow> renkoLoop brickSize ohlc 1 (close first, []))"

section \<open>Numbers as text\<close>

text \<open>A template literal \<open>${n}\<close> for a whole number \<open>n\<close>: its decimal digits.\<close>

fun showNat :: "nat \<Rightarrow> string" where
  "showNat n = (if n < 10 then [''0123456789'' ! n] else showNat (n div 10) @ [''0123456789'' ! (n mod 10)])"

declare showNat.simps [simp del]

definition showInt :: "int \<Rightarrow> string" where
  "showInt k = (if k < 0 then ''-'' @ showNat (nat (- k)) else showNat (nat k))"

section \<open>Time labels: \<open>formatTime\<close> (renderer/utils.ts)\<close>

text \<open>
  The three \<open>Date\<close> methods that \<open>formatTime\<close> calls, with the options it passes, as
  functions of the timestamp in milliseconds. They belong to the host (its time zone and
  locale data), not to the repository, so they are a parameter of the model.
\<close>

record js_runtime =
  toDateString :: "int \<Rightarrow> string"
  toLocaleTimeString :: "int \<Rightarrow> string"
  toLocaleDateString :: "int \<Rightarrow> string"

text \<open>
  \<open>formatTime(timestamp)\<close>. The source reads the clock (\<open>const now = new Date()\<close>); the
  reading is the argument \<open>now\<close>.
\<close>

definition formatTime :: "js_runtime \<Rightarrow> int \<Rightarrow> int \<Rightarrow> string" where
  "formatTime rt now timestamp =
     (let isToday = (toDateString rt timestamp = toDateString rt now)
      in if isToday then toLocaleTimeString rt timestamp else toLocaleDateString rt timestamp)"

text \<open>
  A sample host: time zone UTC, locale en-US. The civil date of a day number is computed
  with the usual era arithmetic on the proleptic Gregorian calendar.
\<close>

definition civilFromDays :: "int \<Rightarrow> int \<times> int \<times> int" where
  "civilFromDays days =
     (let z = days + 719468;
          era = z div 146097;
          doe = z mod 146097;
          yoe = (doe - doe div 1460 + doe div 36524 - doe div 146096) div 365;
          doy = doe - (365 * yoe + yoe div 4 - yoe div 100);
          mp = (5 * doy + 2) div 153;
          d = doy - (153 * mp + 2) div 5 + 1;
          m = (if mp < 10 then mp + 3 else mp - 9);
          y = yoe + era * 400 + (if m \<le> 2 then 1 else 0)
      in (y, m, d))"

definition monthNames :: "string list" where
  "monthNames = [''Jan'', ''Feb'', ''Mar'', ''Apr'', ''May'', ''Jun'',
                 ''Jul'', ''Aug'', ''Sep'', ''Oct'', ''Nov'', ''Dec'']"

definition dayNames :: "string list" where
  "dayNames = [''Sun'', ''Mon'', ''Tue'', ''Wed'', ''Thu'', ''Fri'', ''Sat'']"

definition twoDigits :: "int \<Rightarrow> string" where
  "twoDigits k = (if k < 10 then ''0'' @ showInt k else showInt k)"

definition utcClock :: "int \<Rightarrow> string" where
  "utcClock ms =
     (let minutes = (ms div 60000) mod 1440
      in twoDigits (minutes div 60) @ '':'' @ twoDigits (minutes mod 60))"

definition utcRuntime :: js_runtime where
  "utcRuntime =
     \<lparr>toDateString = (\<lambda>ms.
        (case civilFromDays (ms div 86400000) of (y, m, d) \<Rightarrow>
           dayNames ! nat ((ms div 86400000 + 4) mod 7) @ '' '' @ monthNames ! nat (m - 1) @
           '' '' @ twoDigits d @ '' '' @ showInt y)),
      toLocaleTimeString = utcClock,
      toLocaleDateString = (\<lambda>ms.
        (case civilFromDays (ms div 86400000) of (y, m, d) \<Rightarrow>
           monthNames ! nat (m - 1) @ '' '' @ showInt d @ '', '' @ utcClock ms))\<rparr>"

section \<open>Renderers\<close>

text \<open>
  Of each renderer the model keeps the vertical projection: the pixel rows it computes
  for the prices it draws. Horizontal positions, colours and the canvas calls that
  consume the rows are left out, and so are the EMA overlay, the grid, the title and the
  watermark.
\<close>

record candle_rows =
  openY :: jsnum
  closeY :: jsnum
  highY :: jsnum
  lowY :: jsnum

record block_rows =
  block_openY :: jsnum
  block_closeY :: jsnum
  isUp :: bool

text \<open>The four rows of one candle in the frame \<open>(maxP, rangeP)\<close>.\<close>

definition candleRows :: "ChartDimensions \<Rightarrow> real \<Rightarrow> real \<Rightarrow> candle \<Rightarrow> candle_rows" where
  "candleRows dimensions maxP rangeP candle =
     \<lparr>openY = pixelY dimensions maxP rangeP (open candle),
      closeY = pixelY dimensions maxP rangeP (close candle),
      highY = pixelY dimensions maxP rangeP (high candle),
      lowY = pixelY dimensions maxP rangeP (low candle)\<rparr>"

text \<open>
  Every chart type renderer is constructed with the \<open>priceRange\<close> that \<open>drawChart\<close>
  computed; it is the argument \<open>pr\<close>. \<open>CandlestickRenderer\<close>, \<open>LineRenderer\<close> and
  \<open>AreaRenderer\<close> project through it.
\<close>

definition Candlestick_render :: "ChartDimensions \<Rightarrow> price_range \<Rightarrow> candle list \<Rightarrow> candle_rows list" where
  "Candlestick_render dimensions pr candles =
     map (candleRows dimensions (maxPrice pr) (priceRange pr)) candles"

definition Line_render :: "ChartDimensions \<Rightarrow> price_range \<Rightarrow> candle list \<Rightarrow> jsnum list" where
  "Line_render dimensions pr candles =
     map (\<lambda>candle. pixelY dimensions (maxPrice pr) (priceRange pr) (close candle)) candles"

definition Area_render :: "ChartDimensions \<Rightarrow> price_range \<Rightarrow> candle list \<Rightarrow> jsnum list" where
  "Area_render dimensions pr candles =
     map (\<lambda>candle. pixelY dimensions (maxPrice pr) (priceRange pr) (close candle)) candles"

text \<open>
  \<open>HeikinAshiRenderer.render\<close> computes \<open>maxPriceHA\<close> and \<open>priceRangeHA\<close> from the
  Heikin-Ashi candles and projects through them. On an empty series \<open>forEach\<close> draws
  nothing.
\<close>

definition HeikinAshi_render :: "ChartDimensions \<Rightarrow> price_range \<Rightarrow> candle list \<Rightarrow> candle_rows list" where
  "HeikinAshi_render dimensions pr candles =
     (let haData = calculateHeikinAshi candles
      in case (Math_min (prices haData), Math_max (prices haData)) of
           (Some minP, Some maxPriceHA) \<Rightarrow>
             (let priceRangeHA = maxPriceHA - minP
              in map (candleRows dimensions maxPriceHA priceRangeHA) haData)
         | _ \<Rightarrow> [])"

text \<open>
  \<open>RenkoRenderer.render\<close>: bricks of 2%; it returns early when there is no brick, and
  otherwise projects through the extremes of the bricks.
\<close>

definition Renko_render :: "ChartDimensions \<Rightarrow> price_range \<Rightarrow> candle list \<Rightarrow> failure + block_rows list" where
  "Renko_render dimensions pr candles =
     (case calculateRenko candles 0.02 of
        Inl e \<Rightarrow> Inl e
      | Inr renkoData \<Rightarrow>
          if length renkoData = 0 then Inr []
          else
            (case (Math_min (prices renkoData), Math_max (prices renkoData)) of
               (Some minP, Some maxPriceRenko) \<Rightarrow>
                 (let priceRangeRenko = maxPriceRenko - minP
                  in Inr (map (\<lambda>block.
                       \<lparr>block_openY = pixelY dimensions maxPriceRenko priceRangeRenko (open block),
                        block_closeY = pixelY dimensions maxPriceRenko priceRangeRenko (close block),
                        isUp = (direction block > 0)\<rparr>) renkoData))
             | _ \<Rightarrow> Inr []))"

text \<open>
  \<open>AxesRenderer.drawPriceLabels\<close>: six labels, \<open>i = 0, ..., 5\<close>. The model keeps the
  price that is printed (the source prints \<open>formatPrice(price)\<close>) and its row.
\<close>

definition drawPriceLabels :: "ChartDimensions \<Rightarrow> price_range \<Rightarrow> (real \<times> jsnum) list" where
  "drawPriceLabels dimensions pr =
     map (\<lambda>i. (let numLabels = 5;
                    price = minPrice pr + (real i / numLabels) * priceRange pr
                in (price, pixelY dimensions (maxPrice pr) (priceRange pr) price)))
       [0..<6]"

text \<open>
  \<open>AxesRenderer.drawTimeLabels\<close>: a label every \<open>step\<close> candles, at
  \<open>margin.left + (i / (ohlc.length - 1)) * chartWidth\<close>.
\<close>

record time_label =
  label_text :: string
  label_x :: jsnum

function timeLabelLoop :: "js_runtime \<Rightarrow> int \<Rightarrow> ChartDimensions \<Rightarrow> candle list \<Rightarrow> nat \<Rightarrow> time_label list" where
  "timeLabelLoop rt now dimensions ohlc i =
     (if i < length ohlc then
        (let step = max 1 (length ohlc div 6);
             candle = ohlc ! i;
             x = js_plus (margin_left dimensions)
                   (js_times (js_div (real i) (real (length ohlc) - 1)) (chartWidth dimensions));
             timeLabel = formatTime rt now (time candle)
         in \<lparr>label_text = timeLabel, label_x = x\<rparr> #
            timeLabelLoop rt now dimensions ohlc (i + step))
      else [])"
  by pat_completeness auto
termination
  by (relation "measure (\<lambda>(rt, now, dimensions, ohlc, i). length ohlc - i)") auto

declare timeLabelLoop.simps [simp del]

definition drawTimeLabels :: "js_runtime \<Rightarrow> int \<Rightarrow> ChartDimensions \<Rightarrow> bool option \<Rightarrow> candle list \<Rightarrow> time_label list" where
  "drawTimeLabels rt now dimensions showTimeAxis ohlc =
     (if length ohlc = 0 then []
      else if showTimeAxis = Some False then []
      else timeLabelLoop rt now dimensions ohlc 0)"

text \<open>\<open>VWAPRenderer.render\<close> and \<open>LevelsRenderer.render\<close> project through \<open>pr\<close>.\<close>

definition VWAP_render :: "ChartDimensions \<Rightarrow> price_range \<Rightarrow> candle list \<Rightarrow> jsnum list" where
  "VWAP_render dimensions pr ohlc =
     map (\<lambda>point. pixelY dimensions (maxPrice pr) (priceRange pr) (point_value point))
       (calculateVWAP ohlc)"

definition Levels_render :: "ChartDimensions \<Rightarrow> price_range \<Rightarrow> real list \<Rightarrow> jsnum list" where
  "Levels_render dimensions pr levels =
     map (\<lambda>level. pixelY dimensions (maxPrice pr) (priceRange pr) level) levels"

text \<open>\<open>hasVolumeData\<close> (renderer/utils.ts)\<close>

definition hasVolumeData :: "candle list \<Rightarrow> bool" where
  "hasVolumeData ohlc =
     list_ex (\<lambda>candle. case volume candle of None \<Rightarrow> False | Some v \<Rightarrow> v > 0) ohlc"

section \<open>\<open>NodeChartRenderer.drawChart\<close> (renderer/index.ts)\<close>

datatype chart_type = Candlestick | Line | Area | HeikinAshi | Renko | LineBreak

record margin_options =
  m_top :: "real option"
  m_bottom :: "real option"
  m_left :: "real option"
  m_right :: "real option"

text \<open>The fields of \<open>ChartOptions\<close> that the modelled part of \<open>drawChart\<close> reads.\<close>

record ChartOptions =
  chartType :: "chart_type option"
  cfg_scale :: "scale_options option"
  cfg_margin :: "margin_options option"
  showVWAP :: "bool option"
  showTimeAxis :: "bool option"

text \<open>\<open>NodeChartData\<close>; of a horizontal level only its \<open>value\<close> is kept.\<close>

record NodeChartData =
  data_ohlc :: "candle list"
  data_levels :: "real list option"
  data_config :: ChartOptions

text \<open>
  The shape that \<open>drawChartType\<close> draws. \<open>LineBreakRenderer\<close> is not among the sources;
  its drawing is not modelled.
\<close>

datatype primary_shape =
    CandleShape "candle_rows list"
  | LineShape "jsnum list"
  | AreaShape "jsnum list"
  | BrickShape "block_rows list"
  | LineBreakShape

definition drawChartType :: "candle list \<Rightarrow> ChartDimensions \<Rightarrow> price_range \<Rightarrow> ChartOptions \<Rightarrow> failure + primary_shape" where
  "drawChartType ohlc dimensions pr config =
     (case (case chartType config of None \<Rightarrow> Candlestick | Some t \<Rightarrow> t) of
        Candlestick \<Rightarrow> Inr (CandleShape (Candlestick_render dimensions pr ohlc))
      | Line \<Rightarrow> Inr (LineShape (Line_render dimensions pr ohlc))
      | Area \<Rightarrow> Inr (AreaShape (Area_render dimensions pr ohlc))
      | HeikinAshi \<Rightarrow> Inr (CandleShape (HeikinAshi_render dimensions pr ohlc))
      | Renko \<Rightarrow>
          (case Renko_render dimensions pr ohlc of
             Inl e \<Rightarrow> Inl e
           | Inr blocks \<Rightarrow> Inr (BrickShape blocks))
      | LineBreak \<Rightarrow> Inr LineBreakShape)"

text \<open>What one call of \<open>drawChart\<close> puts on the canvas, layer by layer.\<close>

record chart_layers =
  primaryShape :: primary_shape
  vwapRows :: "jsnum list option"
  levelRows :: "jsnum list option"
  priceLabels :: "(real \<times> jsnum) list"
  timeLabels :: "time_label list"

text \<open>\<open>v || 0\<close> for an optional number.\<close>

definition orZero :: "real option \<Rightarrow> real" where
  "orZero v = (case v of None \<Rightarrow> 0 | Some a \<Rightarrow> a)"

text \<open>
  The \<open>dimensions\<close> object that \<open>drawChart\<close> builds for a renderer of size
  \<open>canvasWidth\<close> by \<open>canvasHeight\<close>: \<open>config.margin\<close> or the default margins, each side
  read as \<open>margin.side || 0\<close>.
\<close>

definition chartDimensions :: "real \<Rightarrow> real \<Rightarrow> ChartOptions \<Rightarrow> ChartDimensions" where
  "chartDimensions canvasWidth canvasHeight config =
     (let margin = (case cfg_margin config of
                      None \<Rightarrow> \<lparr>m_top = Some 60, m_bottom = Some 40, m_left = Some 60, m_right = Some 40\<rparr>
                    | Some m \<Rightarrow> m);
          cw = canvasWidth - orZero (m_left margin) - orZero (m_right margin);
          ch = canvasHeight - orZero (m_top margin) - orZero (m_bottom margin)
      in \<lparr>width = canvasWidth, height = canvasHeight,
          margin_top = orZero (m_top margin), margin_bottom = orZero (m_bottom margin),
          margin_left = orZero (m_left margin), margin_right = orZero (m_right margin),
          chartWidth = cw, chartHeight = ch\<rparr>)"

text \<open>
  \<open>drawChart\<close>. The result is \<open>Inr None\<close> when it returns without drawing (an empty
  series); the price range is computed from the candles it was given, whatever the
  chart type.
\<close>

definition drawChart :: "js_runtime \<Rightarrow> int \<Rightarrow> real \<Rightarrow> real \<Rightarrow> NodeChartData \<Rightarrow> failure + chart_layers option" where
  "drawChart rt now canvasWidth canvasHeight chartData =
     (let ohlc = data_ohlc chartData; config = data_config chartData
      in if length ohlc = 0 then Inr None
         else
           (let dimensions = chartDimensions canvasWidth canvasHeight config
            in case calculatePriceRange ohlc (cfg_scale config) of
                 None \<Rightarrow> Inr None
               | Some pr \<Rightarrow>
                   (case drawChartType ohlc dimensions pr config of
                      Inl e \<Rightarrow> Inl e
                    | Inr shape \<Rightarrow>
                        Inr (Some
                          \<lparr>primaryShape = shape,
                           vwapRows = (if truthy_bool (showVWAP config) \<and> hasVolumeData ohlc
                                       then Some (VWAP_render dimensions pr ohlc) else None),
                           levelRows = (case data_levels chartData of
                                          None \<Rightarrow> None
                                        | Some levels \<Rightarrow> Some (Levels_render dimensions pr levels)),
                           priceLabels = drawPriceLabels dimensions pr,
                           timeLabels = drawTimeLabels rt now dimensions (showTimeAxis config) ohlc\<rparr>))))"

section \<open>Comparison service: \<open>ComparisonService.grid\<close>\<close>

datatype layout_type = SideBySide | Grid

text \<open>\<open>ComparisonLayout\<close> (renderer/comparison.ts)\<close>

record ComparisonLayout =
  layout_type :: layout_type
  layout_columns :: "int option"
  layout_rows :: "int option"
  layout_gap :: "real option"

text \<open>
  \<open>ComparisonConfig\<close>: the three fields that \<open>grid\<close> sets, and the remaining options
  (time frames, exchange, size, theme, chart type, indicators, colours) as one value.
  In the \<open>Partial<ComparisonConfig>\<close> that a caller passes every field is optional.
\<close>

record 'r ComparisonConfig =
  cc_symbols :: "string list"
  cc_outputPath :: "string option"
  cc_layout :: "ComparisonLayout option"
  cc_rest :: "'r option"

record 'r PartialConfig =
  pc_symbols :: "string list option"
  pc_outputPath :: "string option"
  pc_layout :: "ComparisonLayout option"
  pc_rest :: "'r option"

text \<open>\<open>ComparisonResult\<close>\<close>

record 'b ComparisonResult =
  success :: bool
  outputPath :: "string option"
  error :: "string option"
  buffer :: "'b option"

text \<open>\<open>symbols.join(', ')\<close>\<close>

fun join :: "string \<Rightarrow> string list \<Rightarrow> string" where
  "join sep [] = []"
| "join sep [s] = s"
| "join sep (s # t # ts) = s @ sep @ join sep (t # ts)"

text \<open>
  The object \<open>{symbols, outputPath, layout, ...config}\<close>: a field that the caller's
  \<open>config\<close> has replaces the one written before the spread.
\<close>

definition spreadConfig :: "string list \<Rightarrow> string \<Rightarrow> ComparisonLayout \<Rightarrow> 'r PartialConfig option \<Rightarrow> 'r ComparisonConfig" where
  "spreadConfig symbols path layout config =
     (case config of
        None \<Rightarrow> \<lparr>cc_symbols = symbols, cc_outputPath = Some path, cc_layout = Some layout, cc_rest = None\<rparr>
      | Some c \<Rightarrow>
          \<lparr>cc_symbols = (case pc_symbols c of None \<Rightarrow> symbols | Some s \<Rightarrow> s),
           cc_outputPath = (case pc_outputPath c of None \<Rightarrow> Some path | Some p \<Rightarrow> Some p),
           cc_layout = (case pc_layout c of None \<Rightarrow> Some layout | Some l \<Rightarrow> Some l),
           cc_rest = pc_rest c\<rparr>)"

text \<open>
  \<open>ComparisonService.grid(symbols, columns, outputPath, config)\<close>. Creating the service
  and running \<open>generateComparison\<close> fetches data, renders and writes the file: these
  effects are the function \<open>generateComparison\<close> on a world \<open>'w\<close>, a parameter of the
  model. \<open>columns\<close> is a whole number (the command line reads it with \<open>parseInt\<close>).
\<close>

definition grid ::
  "('r ComparisonConfig \<Rightarrow> 'w \<Rightarrow> 'b ComparisonResult \<times> 'w) \<Rightarrow>
   string list \<Rightarrow> int \<Rightarrow> string \<Rightarrow> 'r PartialConfig option \<Rightarrow> 'w \<Rightarrow> 'b ComparisonResult \<times> 'w" where
  "grid generateComparison symbols columns path config world =
     (if length symbols > 2 then
        (\<lparr>success = False, outputPath = None,
          error = Some (''Grid layout supports maximum 2 symbols. Got '' @ showNat (length symbols) @
                        '' symbols: '' @ join '', '' symbols),
          buffer = None\<rparr>, world)
      else if columns > 2 then
        (\<lparr>success = False, outputPath = None,
          error = Some (''Grid layout supports maximum 2 columns. Got '' @ showInt columns @ '' columns''),
          buffer = None\<rparr>, world)
      else
        generateComparison
          (spreadConfig symbols path
             \<lparr>layout_type = Grid, layout_columns = Some columns, layout_rows = None,
              layout_gap = Some 15\<rparr> config)
          world)"

text \<open>
  A sample \<open>generateComparison\<close>: the world counts the comparisons rendered.
\<close>

definition countingGenerate :: "unit ComparisonConfig \<Rightarrow> nat \<Rightarrow> unit ComparisonResult \<times> nat" where
  "countingGenerate cfg n =
     (\<lparr>success = True, outputPath = cc_outputPath cfg, error = None, buffer = Some ()\<rparr>, Suc n)"

section \<open>Comparison layout: \<open>ComparisonRenderer\<close> (renderer/comparison.ts)\<close>

record position =
  pos_x :: real
  pos_y :: real
  pos_width :: real
  pos_height :: real

text \<open>
  A \<open>ComparisonRenderer\<close> whose \<open>layout.type\<close> is \<open>'side-by-side'\<close> (the grid branch of
  \<open>calculatePosition\<close> is not modelled): its size, \<open>layout.gap\<close> and the charts added so
  far, each with its position. \<open>'d\<close> is the chart data.
\<close>

record 'd ComparisonRenderer =
  cr_width :: real
  cr_height :: real
  cr_gap :: "real option"
  cr_charts :: "('d \<times> position) list"

text \<open>
  \<open>calculatePosition(index, totalCharts)\<close>, side-by-side branch; it does not read
  \<open>totalCharts\<close>. \<open>this.layout.gap || 10\<close>: an absent or zero gap is 10.
\<close>

definition calculatePosition :: "'d ComparisonRenderer \<Rightarrow> nat \<Rightarrow> position" where
  "calculatePosition this index =
     (let gap = (case cr_gap this of None \<Rightarrow> 10 | Some g \<Rightarrow> if g = 0 then 10 else g);
          cw = (cr_width this - gap) / real (max (length (cr_charts this)) 2)
      in \<lparr>pos_x = real index * (cw + gap), pos_y = 0, pos_width = cw,
          pos_height = cr_height this\<rparr>)"

text \<open>\<open>addChart(chartData, position)\<close>; the default position is computed before the push.\<close>

definition addChart :: "'d ComparisonRenderer \<Rightarrow> 'd \<Rightarrow> position option \<Rightarrow> 'd ComparisonRenderer" where
  "addChart this chartData pos =
     (let defaultPosition = calculatePosition this (length (cr_charts this))
      in this\<lparr>cr_charts := cr_charts this @
           [(chartData, case pos of None \<Rightarrow> defaultPosition | Some p \<Rightarrow> p)]\<rparr>)"

text \<open>
  The renderer that \<open>ComparisonService.sideBySide\<close> creates with the default size:
  1600 by 800, gap 20.
\<close>

definition sideBySideRenderer :: "string ComparisonRenderer" where
  "sideBySideRenderer = \<lparr>cr_width = 1600, cr_height = 800, cr_gap = Some 20, cr_charts = []\<rparr>"

section \<open>Sample inputs\<close>

text \<open>A flat series: two candles at the single price 100.\<close>

definition candleF1 :: candle where
  "candleF1 = \<lparr>time = 1000, open = 100, high = 100, low = 100, close = 100, volume = None\<rparr>"

definition candleF2 :: candle where
  "candleF2 = \<lparr>time = 2000, open = 100, high = 100, low = 100, close = 100, volume = None\<rparr>"

text \<open>The dimensions of an 800 by 600 chart with the default margins.\<close>

definition dims800 :: ChartDimensions where
  "dims800 = \<lparr>width = 800, height = 600, margin_top = 60, margin_bottom = 40,
               margin_left = 60, margin_right = 40, chartWidth = 700, chartHeight = 500\<rparr>"

text \<open>Two candles of 3 November 2024, 10:30 and 11:30 UTC.\<close>

definition candleT1 :: candle where
  "candleT1 = \<lparr>time = 1730629800000, open = 100, high = 110, low = 90, close = 105, volume = None\<rparr>"

definition candleT2 :: candle where
  "candleT2 = \<lparr>time = 1730633400000, open = 105, high = 120, low = 95, close = 100, volume = None\<rparr>"

definition plainConfig :: ChartOptions where
  "plainConfig = \<lparr>chartType = None, cfg_scale = None, cfg_margin = None, showVWAP = None,
                   showTimeAxis = None\<rparr>"

definition timeData :: NodeChartData where
  "timeData = \<lparr>data_ohlc = [candleT1, candleT2], data_levels = None, data_config = plainConfig\<rparr>"

text \<open>A rising series drawn as Renko, with the time axis hidden.\<close>

definition candleR1 :: candle where
  "candleR1 = \<lparr>time = 1000, open = 100, high = 100, low = 100, close = 100, volume = None\<rparr>"

definition candleR2 :: candle where
  "candleR2 = \<lparr>time = 2000, open = 100, high = 103, low = 100, close = 103, volume = None\<rparr>"

definition renkoData :: NodeChartData where
  "renkoData = \<lparr>data_ohlc = [candleR1, candleR2], data_levels = Some [103],
                 data_config = \<lparr>chartType = Some Renko, cfg_scale = None, cfg_margin = None,
                                showVWAP = None, showTimeAxis = Some False\<rparr>\<rparr>"

text \<open>
  Scale options: a doubling multiplier with auto-scale; equal lower and upper limits; a
  negative multiplier.
\<close>

definition scaleDouble :: scale_options where
  "scaleDouble = \<lparr>scale_x = Some 2, scale_y = None, autoScale = Some True,
                   minScale = None, maxScale = None\<rparr>"

definition scaleLimits :: scale_options where
  "scaleLimits = \<lparr>scale_x = None, scale_y = None, autoScale = None,
                   minScale = Some 120, maxScale = Some 120\<rparr>"

definition scaleFlip :: scale_options where
  "scaleFlip = \<lparr>scale_x = Some (- 1), scale_y = None, autoScale = None,
                 minScale = None, maxScale = None\<rparr>"

section \<open>Properties of the scaling\<close>

lemma set_prices: "set (prices ohlc) = high ` set ohlc \<union> low ` set ohlc"
  by (induction ohlc) (auto simp: prices_def)

lemma prices_Nil_iff: "prices ohlc = [] \<longleftrightarrow> ohlc = []"
  by (cases ohlc) (simp_all add: prices_def)

lemma Math_min_Min: "ps \<noteq> [] \<Longrightarrow> Math_min ps = Some (Min (set ps))"
  by (cases ps) (simp_all add: Min.set_eq_fold del: set_simps)

lemma Math_max_Max: "ps \<noteq> [] \<Longrightarrow> Math_max ps = Some (Max (set ps))"
  by (cases ps) (simp_all add: Max.set_eq_fold del: set_simps)

text \<open>
  When every candle has its low below its high, the least of all highs and lows is the
  least low, and the greatest is the greatest high.
\<close>

lemma Min_prices:
  assumes "ohlc \<noteq> []" and "\<forall>c \<in> set ohlc. low c \<le> high c"
  shows "Min (set (prices ohlc)) = Min (low ` set ohlc)"
proof (rule Min_eqI)
  show "finite (set (prices ohlc))" by simp
next
  fix p assume "p \<in> set (prices ohlc)"
  then obtain c where c: "c \<in> set ohlc" and p: "p = high c \<or> p = low c"
    by (auto simp: set_prices)
  have "Min (low ` set ohlc) \<le> low c" using c by simp
  also have "low c \<le> p" using p assms(2) c by auto
  finally show "Min (low ` set ohlc) \<le> p" .
next
  have "Min (low ` set ohlc) \<in> low ` set ohlc"
    using assms(1) by (intro Min_in) simp_all
  then show "Min (low ` set ohlc) \<in> set (prices ohlc)"
    by (simp add: set_prices)
qed

lemma Max_prices:
  assumes "ohlc \<noteq> []" and "\<forall>c \<in> set ohlc. low c \<le> high c"
  shows "Max (set (prices ohlc)) = Max (high ` set ohlc)"
proof (rule Max_eqI)
  show "finite (set (prices ohlc))" by simp
next
  fix p assume "p \<in> set (prices ohlc)"
  then obtain c where c: "c \<in> set ohlc" and p: "p = high c \<or> p = low c"
    by (auto simp: set_prices)
  have "p \<le> high c" using p assms(2) c by auto
  also have "high c \<le> Max (high ` set ohlc)" using c by simp
  finally show "p \<le> Max (high ` set ohlc)" .
next
  have "Max (high ` set ohlc) \<in> high ` set ohlc"
    using assms(1) by (intro Max_in) simp_all
  then show "Max (high ` set ohlc) \<in> set (prices ohlc)"
    by (simp add: set_prices)
qed

lemma calculatePriceRange_noScale:
  assumes "ohlc \<noteq> []" and "noScaleOptions scale"
  shows "calculatePriceRange ohlc scale =
    Some \<lparr>minPrice = Min (set (prices ohlc)), maxPrice = Max (set (prices ohlc)),
          priceRange = Max (set (prices ohlc)) - Min (set (prices ohlc))\<rparr>"
  using assms
  by (simp add: calculatePriceRange_def noScaleOptions_def applyAutoScale_def
      applyMultiplier_def applyLimits_def Math_min_Min Math_max_Max prices_Nil_iff)

text \<open>
  Claim C1. For a non-empty series of candles, each with \<open>low \<le> high\<close> (a consequence
  of the candle invariant of the data model), the price range computed with no scale
  option has \<open>min\<close> the least low, \<open>max\<close> the greatest high and \<open>range = max - min\<close>.
\<close>

theorem calculatePriceRange_base_range:
  assumes "ohlc \<noteq> []" and "\<forall>c \<in> set ohlc. low c \<le> high c" and "noScaleOptions scale"
  shows "calculatePriceRange ohlc scale =
    Some \<lparr>minPrice = Min (low ` set ohlc), maxPrice = Max (high ` set ohlc),
          priceRange = Max (high ` set ohlc) - Min (low ` set ohlc)\<rparr>"
  using assms by (simp add: calculatePriceRange_noScale Min_prices Max_prices)

theorem calculatePriceRange_base_range_witness:
  "[candleA, candleB] \<noteq> [] \<and> low candleA \<le> high candleA \<and> low candleB \<le> high candleB \<and>
   noScaleOptions None \<and>
   calculatePriceRange [candleA, candleB] None =
     Some \<lparr>minPrice = 90, maxPrice = 120, priceRange = 30\<rparr>"
  using calculatePriceRange_base_range [of "[candleA, candleB]" None]
  by (simp add: candleA_def candleB_def noScaleOptions_def scaleField_def)

lemma applyMultiplier_twice:
  "applyMultiplier ky (applyMultiplier kx (lo, hi)) =
     (let k = (if truthy_number kx then the kx else 1) * (if truthy_number ky then the ky else 1)
      in ((lo + hi) / 2 - (hi - lo) * k / 2, (lo + hi) / 2 + (hi - lo) * k / 2))"
  by (simp add: applyMultiplier_def Let_def field_simps)

text \<open>
  Claim C2. For a non-empty series with \<open>autoScale\<close> set, the bounds are first moved
  outward by exactly 5% of the base range (\<open>padMin = baseMin - 0.05 * (baseMax - baseMin)\<close>,
  \<open>padMax = baseMax + 0.05 * (baseMax - baseMin)\<close>). With no multiplier and no limit these
  are the result. The \<open>x\<close> and \<open>y\<close> multipliers rescale the padded bounds around their
  midpoint, and the limits are applied to that: the padding comes before any multiplier.
\<close>

theorem calculatePriceRange_autoScale_padding:
  assumes "ohlc \<noteq> []" and "truthy_bool (scaleField scale autoScale)"
  shows
   "(let baseMin = Min (set (prices ohlc)); baseMax = Max (set (prices ohlc));
         padMin = baseMin - 0.05 * (baseMax - baseMin);
         padMax = baseMax + 0.05 * (baseMax - baseMin);
         k = (if truthy_number (scaleField scale scale_x) then the (scaleField scale scale_x) else 1) *
             (if truthy_number (scaleField scale scale_y) then the (scaleField scale scale_y) else 1);
         lo = (padMin + padMax) / 2 - (padMax - padMin) * k / 2;
         hi = (padMin + padMax) / 2 + (padMax - padMin) * k / 2;
         lo' = (case scaleField scale minScale of None \<Rightarrow> lo | Some m \<Rightarrow> max lo m);
         hi' = (case scaleField scale maxScale of None \<Rightarrow> hi | Some m \<Rightarrow> min hi m)
     in calculatePriceRange ohlc scale = Some \<lparr>minPrice = lo', maxPrice = hi', priceRange = hi' - lo'\<rparr> \<and>
        (k = 1 \<longrightarrow> lo = padMin \<and> hi = padMax))"
proof -
  define baseMin where "baseMin = Min (set (prices ohlc))"
  define baseMax where "baseMax = Max (set (prices ohlc))"
  define padMin where "padMin = baseMin - 0.05 * (baseMax - baseMin)"
  define padMax where "padMax = baseMax + 0.05 * (baseMax - baseMin)"
  define k where "k = (if truthy_number (scaleField scale scale_x) then the (scaleField scale scale_x) else 1) *
             (if truthy_number (scaleField scale scale_y) then the (scaleField scale scale_y) else 1)"
  define lo where "lo = (padMin + padMax) / 2 - (padMax - padMin) * k / 2"
  define hi where "hi = (padMin + padMax) / 2 + (padMax - padMin) * k / 2"
  have ne: "prices ohlc \<noteq> []" using assms(1) by (simp add: prices_Nil_iff)
  have pad: "applyAutoScale scale (baseMin, baseMax) = (padMin, padMax)"
    using assms(2) by (simp add: applyAutoScale_def Let_def padMin_def padMax_def)
  have mult: "applyMultiplier (scaleField scale scale_y)
                (applyMultiplier (scaleField scale scale_x) (padMin, padMax)) = (lo, hi)"
    unfolding applyMultiplier_twice Let_def lo_def hi_def k_def ..
  have res: "calculatePriceRange ohlc scale =
      Some \<lparr>minPrice = (case scaleField scale minScale of None \<Rightarrow> lo | Some m \<Rightarrow> max lo m),
            maxPrice = (case scaleField scale maxScale of None \<Rightarrow> hi | Some m \<Rightarrow> min hi m),
            priceRange = (case scaleField scale maxScale of None \<Rightarrow> hi | Some m \<Rightarrow> min hi m) -
                         (case scaleField scale minScale of None \<Rightarrow> lo | Some m \<Rightarrow> max lo m)\<rparr>"
    unfolding calculatePriceRange_def Math_min_Min [OF ne] Math_max_Max [OF ne]
      baseMin_def [symmetric] baseMax_def [symmetric]
    by (simp add: pad mult applyLimits_def)
  have one: "k = 1 \<Longrightarrow> lo = padMin \<and> hi = padMax"
    by (simp add: lo_def hi_def field_simps)
  show ?thesis
    unfolding Let_def
    using res one
    by (simp only: baseMin_def baseMax_def padMin_def padMax_def k_def lo_def hi_def) simp
qed

theorem calculatePriceRange_autoScale_padding_witness:
  "[candleA, candleB] \<noteq> [] \<and> truthy_bool (scaleField (Some scaleAuto) autoScale) \<and>
   calculatePriceRange [candleA, candleB] (Some scaleAuto) =
     Some \<lparr>minPrice = 72, maxPrice = 130, priceRange = 58\<rparr>"
  using calculatePriceRange_autoScale_padding [of "[candleA, candleB]" "Some scaleAuto"]
  by (simp add: candleA_def candleB_def scaleAuto_def scaleField_def prices_def Let_def)

section \<open>Properties of the Heikin-Ashi transform\<close>

lemma candle_copy:
  "\<lparr>time = time c, open = open c, high = high c, low = low c, close = close c,
    volume = volume c\<rparr> = (c :: candle)"
  by (cases c) simp

lemma haCandle_cong:
  "i = 0 \<or> ha ! (i - 1) = ha' ! (i - 1) \<Longrightarrow> haCandle ohlc i ha = haCandle ohlc i ha'"
  by (auto simp: haCandle_def Let_def)

lemma haLoop_length:
  "length ha = i \<Longrightarrow> i \<le> length ohlc \<Longrightarrow> length (haLoop ohlc i ha) = length ohlc"
proof (induction ohlc i ha rule: haLoop.induct)
  case (1 ohlc i ha)
  show ?case
  proof (cases "i < length ohlc")
    case True
    with 1 show ?thesis by (subst haLoop.simps) simp
  next
    case False
    with 1 show ?thesis by (subst haLoop.simps) simp
  qed
qed

lemma haLoop_take:
  "length ha = i \<Longrightarrow> i \<le> length ohlc \<Longrightarrow> take i (haLoop ohlc i ha) = ha"
proof (induction ohlc i ha rule: haLoop.induct)
  case (1 ohlc i ha)
  show ?case
  proof (cases "i < length ohlc")
    case True
    let ?r = "haLoop ohlc (i + 1) (ha @ [haCandle ohlc i ha])"
    have r: "haLoop ohlc i ha = ?r" using True by (subst haLoop.simps) simp
    have "take (i + 1) ?r = ha @ [haCandle ohlc i ha]"
      using 1 True by simp
    then have "take i (take (i + 1) ?r) = take i (ha @ [haCandle ohlc i ha])" by simp
    then have "take i ?r = ha" using 1(2) by (simp add: min_def)
    with r show ?thesis by simp
  next
    case False
    with 1 show ?thesis by (subst haLoop.simps) simp
  qed
qed

lemma haLoop_nth:
  "length ha = i \<Longrightarrow> i \<le> length ohlc \<Longrightarrow> i \<le> j \<Longrightarrow> j < length ohlc \<Longrightarrow>
   haLoop ohlc i ha ! j = haCandle ohlc j (haLoop ohlc i ha)"
proof (induction ohlc i ha rule: haLoop.induct)
  case (1 ohlc i ha)
  from 1(4,5) have lt: "i < length ohlc" by simp
  let ?new = "haCandle ohlc i ha"
  let ?r = "haLoop ohlc (i + 1) (ha @ [?new])"
  have r: "haLoop ohlc i ha = ?r" using lt by (subst haLoop.simps) simp
  have tk: "take (i + 1) ?r = ha @ [?new]"
    using 1(2) lt by (intro haLoop_take) simp_all
  have len: "length ?r = length ohlc"
    using 1(2) lt by (intro haLoop_length) simp_all
  show ?case
  proof (cases "j = i")
    case True
    have "?r ! i = (take (i + 1) ?r) ! i" by simp
    also have "\<dots> = ?new" unfolding tk using 1(2) by (simp add: nth_append)
    finally have a: "?r ! i = ?new" .
    have b: "haCandle ohlc i ?r = ?new"
    proof (cases "i = 0")
      case True
      then show ?thesis by (intro haCandle_cong) simp
    next
      case False
      have "?r ! (i - 1) = (take (i + 1) ?r) ! (i - 1)" using False by simp
      also have "\<dots> = ha ! (i - 1)" unfolding tk using 1(2) False by (simp add: nth_append)
      finally show ?thesis by (intro haCandle_cong) simp
    qed
    show ?thesis using a b r True by simp
  next
    case False
    then have "i + 1 \<le> j" using 1(4) by simp
    then have "?r ! j = haCandle ohlc j ?r"
      using 1(1) [OF lt] 1(2) lt 1(5) by simp
    then show ?thesis using r by simp
  qed
qed

text \<open>
  Claim C3. For a non-empty series the Heikin-Ashi series has the length of the input,
  its first candle is the first input candle, and for every index \<open>i > 0\<close> the output
  candle has \<open>close' = (open + high + low + close) / 4\<close> of the input candle at \<open>i\<close>,
  \<open>open' = (previous output open + previous output close) / 2\<close>,
  \<open>high' = max(input high, open', close')\<close> and \<open>low' = min(input low, open', close')\<close>;
  time and volume are those of the input candle.
\<close>

theorem calculateHeikinAshi_recurrence:
  assumes "ohlc \<noteq> []"
  shows "length (calculateHeikinAshi ohlc) = length ohlc \<and>
         calculateHeikinAshi ohlc ! 0 = ohlc ! 0 \<and>
         (\<forall>i. 0 < i \<and> i < length ohlc \<longrightarrow>
            (let candle = ohlc ! i;
                 prev = calculateHeikinAshi ohlc ! (i - 1);
                 out = calculateHeikinAshi ohlc ! i
             in close out = (open candle + high candle + low candle + close candle) / 4 \<and>
                open out = (open prev + close prev) / 2 \<and>
                high out = max (high candle) (max (open out) (close out)) \<and>
                low out = min (low candle) (min (open out) (close out)) \<and>
                time out = time candle \<and> volume out = volume candle))"
proof (intro conjI allI impI)
  show "length (calculateHeikinAshi ohlc) = length ohlc"
    unfolding calculateHeikinAshi_def by (rule haLoop_length) simp_all
next
  have "calculateHeikinAshi ohlc ! 0 = haCandle ohlc 0 (calculateHeikinAshi ohlc)"
    unfolding calculateHeikinAshi_def using assms by (intro haLoop_nth) simp_all
  then show "calculateHeikinAshi ohlc ! 0 = ohlc ! 0"
    by (simp add: haCandle_def candle_copy)
next
  fix i assume i: "0 < i \<and> i < length ohlc"
  have "calculateHeikinAshi ohlc ! i = haCandle ohlc i (calculateHeikinAshi ohlc)"
    unfolding calculateHeikinAshi_def using i by (intro haLoop_nth) simp_all
  then show "let candle = ohlc ! i;
                 prev = calculateHeikinAshi ohlc ! (i - 1);
                 out = calculateHeikinAshi ohlc ! i
             in close out = (open candle + high candle + low candle + close candle) / 4 \<and>
                open out = (open prev + close prev) / 2 \<and>
                high out = max (high candle) (max (open out) (close out)) \<and>
                low out = min (low candle) (min (open out) (close out)) \<and>
                time out = time candle \<and> volume out = volume candle"
    using i by (simp add: haCandle_def Let_def)
qed

theorem calculateHeikinAshi_recurrence_witness:
  "[candleA, candleB] \<noteq> [] \<and>
   length (calculateHeikinAshi [candleA, candleB]) = 2 \<and>
   calculateHeikinAshi [candleA, candleB] ! 0 = candleA \<and>
   close (calculateHeikinAshi [candleA, candleB] ! 1) = 105 \<and>
   open (calculateHeikinAshi [candleA, candleB] ! 1) = 102.5 \<and>
   high (calculateHeikinAshi [candleA, candleB] ! 1) = 120 \<and>
   low (calculateHeikinAshi [candleA, candleB] ! 1) = 95"
proof -
  have ne: "[candleA, candleB] \<noteq> []" by simp
  note th = calculateHeikinAshi_recurrence [OF ne]
  note first = th [THEN conjunct2, THEN conjunct1]
  note second = th [THEN conjunct2, THEN conjunct2, THEN spec, of 1]
  show ?thesis
    using th [THEN conjunct1] first second
    by (simp add: Let_def candleA_def candleB_def)
qed

section \<open>Properties of the VWAP overlay\<close>

lemma vwapPoint_append: "i < length xs \<Longrightarrow> vwapPoint (xs @ [x]) i = vwapPoint xs i"
  by (simp add: vwapPoint_def nth_append)

lemma foldl_vwapStep:
  "foldl vwapStep (0, 0, []) ohlc =
     (sum_list (map (\<lambda>c. typicalPrice c * candleVolume c) ohlc),
      sum_list (map candleVolume ohlc),
      map (vwapPoint ohlc) [0..<length ohlc])"
proof (induction ohlc rule: rev_induct)
  case Nil
  show ?case by simp
next
  case (snoc x xs)
  have "map (vwapPoint (xs @ [x])) [0..<length xs] = map (vwapPoint xs) [0..<length xs]"
    by (rule map_cong) (simp_all add: vwapPoint_append)
  then show ?case
    using snoc by (simp add: vwapStep_def Let_def vwapPoint_def nth_append)
qed

lemma calculateVWAP_eq: "calculateVWAP ohlc = map (vwapPoint ohlc) [0..<length ohlc]"
  by (simp add: calculateVWAP_def foldl_vwapStep)

lemma sum_list_all_zero:
  "\<forall>c \<in> set xs. f c = (0::real) \<Longrightarrow> sum_list (map f xs) = 0"
  by (induction xs) simp_all

lemma calculateVWAP_points:
  assumes "ohlc \<noteq> []"
  shows "length (calculateVWAP ohlc) = length ohlc \<and>
    (\<forall>i. i < length ohlc \<longrightarrow>
       (let cv = sum_list (map candleVolume (take (Suc i) ohlc));
            cvp = sum_list (map (\<lambda>c. typicalPrice c * candleVolume c) (take (Suc i) ohlc));
            p = calculateVWAP ohlc ! i
        in point_time p = time (ohlc ! i) \<and>
           point_value p = (if 0 < cv then cvp / cv else typicalPrice (ohlc ! i)) \<and>
           ((\<forall>c \<in> set ohlc. 0 \<le> candleVolume c) \<longrightarrow>
              point_value p = (if cv = 0 then typicalPrice (ohlc ! i) else cvp / cv)) \<and>
           ((\<forall>c \<in> set ohlc. candleVolume c = 0) \<longrightarrow> point_value p = typicalPrice (ohlc ! i))))"
proof (intro conjI allI impI)
  show "length (calculateVWAP ohlc) = length ohlc" by (simp add: calculateVWAP_eq)
next
  fix i assume i: "i < length ohlc"
  define cv where "cv = sum_list (map candleVolume (take (Suc i) ohlc))"
  define cvp where "cvp = sum_list (map (\<lambda>c. typicalPrice c * candleVolume c) (take (Suc i) ohlc))"
  define p where "p = calculateVWAP ohlc ! i"
  have p: "p = vwapPoint ohlc i" using i by (simp add: p_def calculateVWAP_eq)
  have t: "point_time p = time (ohlc ! i)" by (simp add: p vwapPoint_def)
  have v: "point_value p = (if 0 < cv then cvp / cv else typicalPrice (ohlc ! i))"
    by (simp add: p vwapPoint_def cv_def cvp_def)
  have nonneg: "point_value p = (if cv = 0 then typicalPrice (ohlc ! i) else cvp / cv)"
    if "\<forall>c \<in> set ohlc. 0 \<le> candleVolume c"
  proof -
    have "\<forall>c \<in> set (take (Suc i) ohlc). 0 \<le> candleVolume c"
      using that by (meson in_set_takeD)
    then have "0 \<le> cv" unfolding cv_def by (intro sum_list_nonneg) auto
    then show ?thesis using v by auto
  qed
  have zero: "point_value p = typicalPrice (ohlc ! i)" if "\<forall>c \<in> set ohlc. candleVolume c = 0"
  proof -
    have "\<forall>c \<in> set (take (Suc i) ohlc). candleVolume c = 0"
      using that by (meson in_set_takeD)
    then have "cv = 0" unfolding cv_def by (rule sum_list_all_zero)
    then show ?thesis using v by simp
  qed
  show "let cv = sum_list (map candleVolume (take (Suc i) ohlc));
            cvp = sum_list (map (\<lambda>c. typicalPrice c * candleVolume c) (take (Suc i) ohlc));
            p = calculateVWAP ohlc ! i
        in point_time p = time (ohlc ! i) \<and>
           point_value p = (if 0 < cv then cvp / cv else typicalPrice (ohlc ! i)) \<and>
           ((\<forall>c \<in> set ohlc. 0 \<le> candleVolume c) \<longrightarrow>
              point_value p = (if cv = 0 then typicalPrice (ohlc ! i) else cvp / cv)) \<and>
           ((\<forall>c \<in> set ohlc. candleVolume c = 0) \<longrightarrow> point_value p = typicalPrice (ohlc ! i))"
    unfolding Let_def cv_def [symmetric] cvp_def [symmetric] p_def [symmetric]
    using t v nonneg zero by blast
qed


text \<open>
  Claim C4. For a non-empty series the VWAP overlay has one point per candle. Write
  \<open>vol c\<close> for the candle's \<open>volume\<close> field, 0 when it is absent, and \<open>tp c\<close> for
  \<open>(high + low + close) / 3\<close>. Point \<open>i\<close> carries the candle's time, and its value is the
  sum of \<open>tp * vol\<close> over the candles up to \<open>i\<close> divided by the sum of \<open>vol\<close> over them
  when that sum is positive, and \<open>tp\<close> of candle \<open>i\<close> otherwise. When no volume is
  negative, the fallback is taken exactly when the running volume is zero. When every
  candle has zero or absent volume, every point is the candle's \<open>tp\<close>.
\<close>

theorem calculateVWAP_running_ratio:
  assumes "ohlc \<noteq> []"
  shows "length (calculateVWAP ohlc) = length ohlc \<and>
    (\<forall>i. i < length ohlc \<longrightarrow>
       (let vol = (\<lambda>c. case volume c of None \<Rightarrow> 0 | Some v \<Rightarrow> v);
            tp = (\<lambda>c. (high c + low c + close c) / 3);
            cv = sum_list (map vol (take (Suc i) ohlc));
            cvp = sum_list (map (\<lambda>c. tp c * vol c) (take (Suc i) ohlc));
            p = calculateVWAP ohlc ! i
        in point_time p = time (ohlc ! i) \<and>
           point_value p = (if 0 < cv then cvp / cv else tp (ohlc ! i)) \<and>
           ((\<forall>c \<in> set ohlc. 0 \<le> vol c) \<longrightarrow>
              point_value p = (if cv = 0 then tp (ohlc ! i) else cvp / cv)) \<and>
           ((\<forall>c \<in> set ohlc. vol c = 0) \<longrightarrow> point_value p = tp (ohlc ! i))))"
  using calculateVWAP_points [OF assms]
  unfolding Let_def candleVolume_def typicalPrice_def .

theorem calculateVWAP_running_ratio_witness:
  "[candleV1, candleV2] \<noteq> [] \<and> 1 < length [candleV1, candleV2] \<and>
   volume candleV1 = Some 1 \<and> volume candleV2 = Some 3 \<and>
   length (calculateVWAP [candleV1, candleV2]) = 2 \<and>
   point_time (calculateVWAP [candleV1, candleV2] ! 1) = 2000 \<and>
   point_value (calculateVWAP [candleV1, candleV2] ! 0) = 11 \<and>
   point_value (calculateVWAP [candleV1, candleV2] ! 1) = 53 / 4 \<and>
   [candleZ1, candleZ2] \<noteq> [] \<and> 1 < length [candleZ1, candleZ2] \<and>
   volume candleZ1 = Some 0 \<and> volume candleZ2 = None \<and>
   point_value (calculateVWAP [candleZ1, candleZ2] ! 0) = 11 \<and>
   point_value (calculateVWAP [candleZ1, candleZ2] ! 1) = 14"
proof -
  have neV: "[candleV1, candleV2] \<noteq> []" by simp
  have neZ: "[candleZ1, candleZ2] \<noteq> []" by simp
  note thV = calculateVWAP_running_ratio [OF neV]
  note thZ = calculateVWAP_running_ratio [OF neZ]
  have v: "length (calculateVWAP [candleV1, candleV2]) = 2 \<and>
      point_time (calculateVWAP [candleV1, candleV2] ! 1) = 2000 \<and>
      point_value (calculateVWAP [candleV1, candleV2] ! 0) = 11 \<and>
      point_value (calculateVWAP [candleV1, candleV2] ! 1) = 53 / 4"
    using thV [THEN conjunct1] thV [THEN conjunct2, THEN spec, of 0]
      thV [THEN conjunct2, THEN spec, of 1]
    by (simp add: Let_def candleV1_def candleV2_def)
  have z: "point_value (calculateVWAP [candleZ1, candleZ2] ! 0) = 11 \<and>
      point_value (calculateVWAP [candleZ1, candleZ2] ! 1) = 14"
    using thZ [THEN conjunct2, THEN spec, of 0] thZ [THEN conjunct2, THEN spec, of 1]
    by (simp add: Let_def candleZ1_def candleZ2_def)
  show ?thesis
    using v z by (simp add: candleV1_def candleV2_def candleZ1_def candleZ2_def)
qed

section \<open>Properties of the Renko transform\<close>

lemma renkoCandle_flat:
  "close candle = currentPrice \<Longrightarrow>
   renkoCandle brickSize candle (currentPrice, renko) = Inr (currentPrice, renko)"
  by (simp add: renkoCandle_def js_div_def Let_def)

lemma renkoLoop_flat:
  "\<forall>c \<in> set ohlc. close c = currentPrice \<Longrightarrow>
   renkoLoop brickSize ohlc i (currentPrice, renko) = Inr renko"
proof (induction "length ohlc - i" arbitrary: i)
  case 0
  then show ?case by (subst renkoLoop.simps) simp
next
  case (Suc n)
  then have lt: "i < length ohlc" by simp
  then have "close (ohlc ! i) = currentPrice" using Suc.prems by simp
  then have step: "renkoCandle brickSize (ohlc ! i) (currentPrice, renko) = Inr (currentPrice, renko)"
    by (rule renkoCandle_flat)
  have "renkoLoop brickSize ohlc (i + 1) (currentPrice, renko) = Inr renko"
    using Suc.hyps(2) Suc.prems by (intro Suc.hyps(1)) simp_all
  then show ?case using lt step by (subst renkoLoop.simps) simp
qed

text \<open>
  Claim C5. For a non-empty series in which every close equals the first close, the
  brick computation returns no brick, for every brick size, and \<open>RenkoRenderer.render\<close>
  returns normally having drawn nothing.
\<close>

theorem calculateRenko_flat_no_bricks:
  assumes "ohlc \<noteq> []" and "\<forall>c \<in> set ohlc. close c = close (ohlc ! 0)"
  shows "calculateRenko ohlc brickSize = Inr [] \<and> Renko_render dimensions pr ohlc = Inr []"
proof -
  obtain first rest where ohlc: "ohlc = first # rest" using assms(1) by (cases ohlc) auto
  have "\<forall>c \<in> set ohlc. close c = close first" using assms(2) ohlc by simp
  then have "renkoLoop b ohlc 1 (close first, []) = Inr []" for b
    by (rule renkoLoop_flat)
  then have "calculateRenko ohlc b = Inr []" for b
    by (simp add: calculateRenko_def ohlc)
  then show ?thesis by (simp add: Renko_render_def)
qed

theorem calculateRenko_flat_no_bricks_witness:
  "[candleF1, candleF2] \<noteq> [] \<and>
   close candleF1 = close ([candleF1, candleF2] ! 0) \<and>
   close candleF2 = close ([candleF1, candleF2] ! 0) \<and>
   calculateRenko [candleF1, candleF2] 0.02 = Inr [] \<and>
   Renko_render dims800 \<lparr>minPrice = 100, maxPrice = 100, priceRange = 0\<rparr> [candleF1, candleF2] = Inr []"
  using calculateRenko_flat_no_bricks [of "[candleF1, candleF2]" "0.02" dims800
      "\<lparr>minPrice = 100, maxPrice = 100, priceRange = 0\<rparr>"]
  by (simp add: candleF1_def candleF2_def)

section \<open>Facts about \<open>drawChart\<close>\<close>

lemma calculatePriceRange_Some:
  "ohlc \<noteq> [] \<Longrightarrow> \<exists>pr. calculatePriceRange ohlc scale = Some pr"
  by (auto simp: calculatePriceRange_def Math_min_Min Math_max_Max prices_Nil_iff split: prod.splits)

lemma drawChartType_Inr:
  assumes "chartType config \<noteq> Some Renko"
  shows "\<exists>shape. drawChartType ohlc dimensions pr config = Inr shape"
proof (cases "chartType config")
  case None
  then show ?thesis by (simp add: drawChartType_def)
next
  case (Some t)
  then show ?thesis using assms by (cases t) (simp_all add: drawChartType_def)
qed

lemma chartDimensions_default: "chartDimensions 800 600 plainConfig = dims800"
  by (simp add: chartDimensions_def plainConfig_def dims800_def orZero_def)

section \<open>Properties of the grid comparison\<close>

lemma sublist_in_right: "sublist s ys \<Longrightarrow> sublist s (xs @ ys)"
  by (simp add: sublist_append)

lemma sublist_join: "s \<in> set xs \<Longrightarrow> sublist s (join sep xs)"
proof (induction sep xs rule: join.induct)
  case (1 sep)
  then show ?case by simp
next
  case (2 sep s')
  then show ?case by simp
next
  case (3 sep a t ts)
  show ?case
  proof (cases "s = a")
    case True
    then show ?thesis by (simp add: sublist_append_rightI)
  next
    case False
    then have "sublist s (join sep (t # ts))" using 3 by simp
    then have "sublist s (a @ sep @ join sep (t # ts))"
      by (intro sublist_in_right)
    then show ?thesis by simp
  qed
qed

text \<open>
  Claim C6. When the symbol list has more than 2 entries, or the column count is greater
  than 2, \<open>grid\<close> returns the failure result \<open>{success: false, error}\<close> and leaves the
  world as it was: \<open>generateComparison\<close> is not run, so nothing is fetched, rendered or
  written. The message names the violated limit and the offending input in full: the
  number of symbols and every symbol, or the number of columns.
\<close>

theorem grid_rejects_over_limit:
  assumes "2 < length symbols \<or> 2 < columns"
  shows "\<exists>msg. grid generateComparison symbols columns path config world =
           (\<lparr>success = False, outputPath = None, error = Some msg, buffer = None\<rparr>, world) \<and>
         (if 2 < length symbols
          then sublist ''maximum 2 symbols'' msg \<and> sublist (showNat (length symbols)) msg \<and>
               (\<forall>s \<in> set symbols. sublist s msg)
          else sublist ''maximum 2 columns'' msg \<and> sublist (showInt columns) msg)"
proof (cases "2 < length symbols")
  case True
  let ?msg = "''Grid layout supports maximum 2 symbols. Got '' @ showNat (length symbols) @
                        '' symbols: '' @ join '', '' symbols"
  have a: "sublist ''maximum 2 symbols'' ?msg"
  proof -
    have "?msg = ''Grid layout supports '' @ ''maximum 2 symbols'' @
        (''. Got '' @ showNat (length symbols) @ '' symbols: '' @ join '', '' symbols)" by simp
    then show ?thesis unfolding sublist_def by blast
  qed
  have b: "sublist (showNat (length symbols)) ?msg"
    unfolding sublist_def by blast
  have c: "\<forall>s \<in> set symbols. sublist s ?msg"
  proof
    fix s assume "s \<in> set symbols"
    then have "sublist s (join '', '' symbols)" by (rule sublist_join)
    then have "sublist s ('' symbols: '' @ join '', '' symbols)"
      by (rule sublist_in_right)
    then have "sublist s (showNat (length symbols) @ ('' symbols: '' @ join '', '' symbols))"
      by (rule sublist_in_right)
    then show "sublist s ?msg" by (rule sublist_in_right)
  qed
  show ?thesis
    using True a b c by (intro exI [of _ ?msg]) (simp add: grid_def)
next
  case False
  then have col: "2 < columns" using assms by simp
  let ?msg = "''Grid layout supports maximum 2 columns. Got '' @ showInt columns @ '' columns''"
  have a: "sublist ''maximum 2 columns'' ?msg"
  proof -
    have "?msg = ''Grid layout supports '' @ ''maximum 2 columns'' @
        (''. Got '' @ showInt columns @ '' columns'')" by simp
    then show ?thesis unfolding sublist_def by blast
  qed
  have b: "sublist (showInt columns) ?msg"
    unfolding sublist_def by blast
  show ?thesis
    using False col a b by (intro exI [of _ ?msg]) (simp add: grid_def)
qed

theorem grid_rejects_over_limit_witness:
  "2 < length [''BTC/USDT'', ''ETH/USDT'', ''ADA/USDT''] \<and>
   grid countingGenerate [''BTC/USDT'', ''ETH/USDT'', ''ADA/USDT''] 2 ''out.png'' None 0 =
     (\<lparr>success = False, outputPath = None,
       error = Some ''Grid layout supports maximum 2 symbols. Got 3 symbols: BTC/USDT, ETH/USDT, ADA/USDT'',
       buffer = None\<rparr>, 0) \<and>
   (2::int) < 3 \<and>
   grid countingGenerate [''BTC/USDT'', ''ETH/USDT''] 3 ''out.png'' None 0 =
     (\<lparr>success = False, outputPath = None,
       error = Some ''Grid layout supports maximum 2 columns. Got 3 columns'',
       buffer = None\<rparr>, 0)"
proof -
  have s: "2 < length [''BTC/USDT'', ''ETH/USDT'', ''ADA/USDT''] \<or> (2::int) < 2" by simp
  have c: "2 < length [''BTC/USDT'', ''ETH/USDT''] \<or> (2::int) < 3" by simp
  from grid_rejects_over_limit [OF s, of countingGenerate "''out.png''" None 0]
  obtain m1 where m1: "grid countingGenerate [''BTC/USDT'', ''ETH/USDT'', ''ADA/USDT''] 2 ''out.png'' None 0 =
           (\<lparr>success = False, outputPath = None, error = Some m1, buffer = None\<rparr>, 0)" by blast
  from grid_rejects_over_limit [OF c, of countingGenerate "''out.png''" None 0]
  obtain m2 where m2: "grid countingGenerate [''BTC/USDT'', ''ETH/USDT''] 3 ''out.png'' None 0 =
           (\<lparr>success = False, outputPath = None, error = Some m2, buffer = None\<rparr>, 0)" by blast
  have e1: "m1 = ''Grid layout supports maximum 2 symbols. Got 3 symbols: BTC/USDT, ETH/USDT, ADA/USDT''"
    using m1 by (simp add: grid_def showNat.simps)
  have e2: "m2 = ''Grid layout supports maximum 2 columns. Got 3 columns''"
    using m2 by (simp add: grid_def showInt_def showNat.simps)
  show ?thesis using m1 m2 e1 e2 by simp
qed

section \<open>Side-by-side layout\<close>

text \<open>
  With two charts the canvas is split evenly: each chart has the width
  \<open>(width - gap) / 2\<close> and chart \<open>i\<close> starts at \<open>i * (chartWidth + gap)\<close>.
\<close>

lemma sideBySide_two_charts:
  "map snd (cr_charts (addChart (addChart
      \<lparr>cr_width = W, cr_height = H, cr_gap = Some g, cr_charts = []\<rparr> a None) b None)) =
     (let gap = (if g = 0 then 10 else g); cw = (W - (2 - 1) * gap) / 2
      in [\<lparr>pos_x = 0 * (cw + gap), pos_y = 0, pos_width = cw, pos_height = H\<rparr>,
          \<lparr>pos_x = 1 * (cw + gap), pos_y = 0, pos_width = cw, pos_height = H\<rparr>])"
  by (simp add: addChart_def calculatePosition_def Let_def)

text \<open>
  Claim C8 at three charts on the 1600 by 800 canvas with gap 20. The claim gives each
  chart the width \<open>(1600 - 2 * 20) / 3 = 520\<close> and the starts 0, 540 and 1080. The code
  divides by the number of charts added so far (at least 2) and subtracts one gap: every
  chart is 790 wide and the third starts at 1620, beyond the right edge of the canvas.
\<close>

theorem sideBySide_three_charts:
  "map snd (cr_charts (addChart (addChart (addChart sideBySideRenderer
      ''BTC/USDT'' None) ''ETH/USDT'' None) ''ADA/USDT'' None)) =
     [\<lparr>pos_x = 0, pos_y = 0, pos_width = 790, pos_height = 800\<rparr>,
      \<lparr>pos_x = 810, pos_y = 0, pos_width = 790, pos_height = 800\<rparr>,
      \<lparr>pos_x = 1620, pos_y = 0, pos_width = 790, pos_height = 800\<rparr>]"
  by (simp add: addChart_def calculatePosition_def sideBySideRenderer_def Let_def)

section \<open>Time labels and the clock\<close>

lemma formatTime_today:
  "toDateString rt a = toDateString rt b \<Longrightarrow> formatTime rt a t = formatTime rt b t"
  by (simp add: formatTime_def)

lemma timeLabelLoop_today:
  "toDateString rt a = toDateString rt b \<Longrightarrow>
   timeLabelLoop rt a dimensions ohlc i = timeLabelLoop rt b dimensions ohlc i"
proof (induction "length ohlc - i" arbitrary: i rule: less_induct)
  case less
  show ?case
  proof (cases "i < length ohlc")
    case True
    let ?j = "i + max 1 (length ohlc div 6)"
    have "length ohlc - ?j < length ohlc - i" using True by simp
    then have "timeLabelLoop rt a dimensions ohlc ?j = timeLabelLoop rt b dimensions ohlc ?j"
      using less.prems by (intro less.hyps) simp_all
    then show ?thesis
      using True formatTime_today [OF less.prems]
      by (subst (1 2) timeLabelLoop.simps) (simp add: Let_def)
  next
    case False
    then show ?thesis by (subst (1 2) timeLabelLoop.simps) simp
  qed
qed

lemma day20030: "civilFromDays 20030 = (2024, 11, 3)"
  unfolding civilFromDays_def Let_def by simp

lemma day20031: "civilFromDays 20031 = (2024, 11, 4)"
  unfolding civilFromDays_def Let_def by simp

lemmas text_simps = dayNames_def monthNames_def twoDigits_def showInt_def showNat.simps

lemma utc_dates:
  "toDateString utcRuntime 1730629800000 = ''Sun Nov 03 2024''"
  "toDateString utcRuntime 1730633400000 = ''Sun Nov 03 2024''"
  "toDateString utcRuntime 1730635200000 = ''Sun Nov 03 2024''"
  "toDateString utcRuntime 1730638800000 = ''Sun Nov 03 2024''"
  "toDateString utcRuntime 1730721600000 = ''Mon Nov 04 2024''"
  by (simp_all add: utcRuntime_def day20030 day20031 text_simps)

lemma utc_clocks:
  "utcClock 1730629800000 = ''10:30''"
  "utcClock 1730633400000 = ''11:30''"
  unfolding utcClock_def Let_def by (simp_all add: text_simps)

lemma utc_formatTime:
  "formatTime utcRuntime 1730635200000 1730629800000 = ''10:30''"
  "formatTime utcRuntime 1730635200000 1730633400000 = ''11:30''"
  "formatTime utcRuntime 1730721600000 1730629800000 = ''Nov 3, 10:30''"
  "formatTime utcRuntime 1730721600000 1730633400000 = ''Nov 3, 11:30''"
proof -
  have t: "toLocaleTimeString utcRuntime ms = utcClock ms" for ms
    by (simp add: utcRuntime_def)
  have d: "toLocaleDateString utcRuntime 1730629800000 = ''Nov 3, 10:30''"
    "toLocaleDateString utcRuntime 1730633400000 = ''Nov 3, 11:30''"
    by (simp_all add: utcRuntime_def day20030 utc_clocks text_simps)
  show "formatTime utcRuntime 1730635200000 1730629800000 = ''10:30''"
    "formatTime utcRuntime 1730635200000 1730633400000 = ''11:30''"
    "formatTime utcRuntime 1730721600000 1730629800000 = ''Nov 3, 10:30''"
    "formatTime utcRuntime 1730721600000 1730633400000 = ''Nov 3, 11:30''"
    by (simp_all add: formatTime_def utc_dates t d utc_clocks)
qed

lemma timeData_labels:
  "drawTimeLabels utcRuntime 1730635200000 dims800 None [candleT1, candleT2] =
     [\<lparr>label_text = ''10:30'', label_x = Finite 60\<rparr>, \<lparr>label_text = ''11:30'', label_x = Finite 760\<rparr>]"
  "drawTimeLabels utcRuntime 1730721600000 dims800 None [candleT1, candleT2] =
     [\<lparr>label_text = ''Nov 3, 10:30'', label_x = Finite 60\<rparr>,
      \<lparr>label_text = ''Nov 3, 11:30'', label_x = Finite 760\<rparr>]"
  by (simp_all add: drawTimeLabels_def timeLabelLoop.simps candleT1_def candleT2_def dims800_def
      js_div_def Let_def utc_formatTime)

lemma drawChart_timeLabels:
  assumes "data_ohlc d \<noteq> []" and "chartType (data_config d) \<noteq> Some Renko"
  shows "\<exists>layers. drawChart rt now w h d = Inr (Some layers) \<and>
           timeLabels layers =
             drawTimeLabels rt now (chartDimensions w h (data_config d))
               (showTimeAxis (data_config d)) (data_ohlc d)"
proof -
  obtain pr where pr: "calculatePriceRange (data_ohlc d) (cfg_scale (data_config d)) = Some pr"
    using calculatePriceRange_Some [OF assms(1)] by blast
  obtain shape where "drawChartType (data_ohlc d) (chartDimensions w h (data_config d)) pr (data_config d) = Inr shape"
    using drawChartType_Inr [OF assms(2)] by blast
  then show ?thesis using assms(1) pr by (simp add: drawChart_def Let_def)
qed

text \<open>
  Claim C7 does not hold as stated: the time labels read the clock. The same series,
  rendered at noon on 3 November 2024 and at noon on the next day, gets the labels
  \<open>10:30\<close>, \<open>11:30\<close> the first time and \<open>Nov 3, 10:30\<close>, \<open>Nov 3, 11:30\<close> the second.
\<close>

theorem drawChart_clock_counterexample:
  "drawTimeLabels utcRuntime 1730635200000 (chartDimensions 800 600 plainConfig) None [candleT1, candleT2] =
     [\<lparr>label_text = ''10:30'', label_x = Finite 60\<rparr>, \<lparr>label_text = ''11:30'', label_x = Finite 760\<rparr>] \<and>
   drawTimeLabels utcRuntime 1730721600000 (chartDimensions 800 600 plainConfig) None [candleT1, candleT2] =
     [\<lparr>label_text = ''Nov 3, 10:30'', label_x = Finite 60\<rparr>,
      \<lparr>label_text = ''Nov 3, 11:30'', label_x = Finite 760\<rparr>] \<and>
   drawChart utcRuntime 1730635200000 800 600 timeData \<noteq>
   drawChart utcRuntime 1730721600000 800 600 timeData"
proof -
  have ne: "data_ohlc timeData \<noteq> []" and ct: "chartType (data_config timeData) \<noteq> Some Renko"
    by (simp_all add: timeData_def plainConfig_def)
  have td: "data_ohlc timeData = [candleT1, candleT2]" "data_config timeData = plainConfig"
    "showTimeAxis plainConfig = None"
    by (simp_all add: timeData_def plainConfig_def)
  obtain l1 where l1: "drawChart utcRuntime 1730635200000 800 600 timeData = Inr (Some l1)"
    and t1: "timeLabels l1 = drawTimeLabels utcRuntime 1730635200000 dims800 None [candleT1, candleT2]"
    using drawChart_timeLabels [OF ne ct, of utcRuntime 1730635200000 800 600]
    unfolding td chartDimensions_default by blast
  obtain l2 where l2: "drawChart utcRuntime 1730721600000 800 600 timeData = Inr (Some l2)"
    and t2: "timeLabels l2 = drawTimeLabels utcRuntime 1730721600000 dims800 None [candleT1, candleT2]"
    using drawChart_timeLabels [OF ne ct, of utcRuntime 1730721600000 800 600]
    unfolding td chartDimensions_default by blast
  have "timeLabels l1 \<noteq> timeLabels l2"
    unfolding t1 t2 timeData_labels by simp
  then have "l1 \<noteq> l2" by auto
  then show ?thesis
    using l1 l2 by (simp add: chartDimensions_default timeData_labels)
qed

text \<open>
  Claim C7, amended. A render depends on the clock only through the current local date:
  two renders of the same data and configuration agree when they run on the same date
  (\<open>toDateString\<close> of the two clock readings is equal), or when the time axis is hidden.
  Nothing else in the render reads the clock, and nothing is random.
\<close>

theorem drawChart_same_date:
  assumes "toDateString rt now1 = toDateString rt now2 \<or>
           showTimeAxis (data_config chartData) = Some False"
  shows "drawChart rt now1 canvasWidth canvasHeight chartData =
         drawChart rt now2 canvasWidth canvasHeight chartData"
proof -
  have "drawTimeLabels rt now1 dimensions (showTimeAxis (data_config chartData)) ohlc =
        drawTimeLabels rt now2 dimensions (showTimeAxis (data_config chartData)) ohlc"
    for dimensions ohlc
  proof (cases "showTimeAxis (data_config chartData) = Some False")
    case True
    then show ?thesis by (simp add: drawTimeLabels_def)
  next
    case False
    then have "toDateString rt now1 = toDateString rt now2" using assms by simp
    then have "timeLabelLoop rt now1 dimensions ohlc 0 = timeLabelLoop rt now2 dimensions ohlc 0"
      by (rule timeLabelLoop_today)
    then show ?thesis by (simp add: drawTimeLabels_def)
  qed
  then show ?thesis by (simp add: drawChart_def Let_def split: option.split sum.split)
qed

theorem drawChart_same_date_witness:
  "toDateString utcRuntime 1730635200000 = toDateString utcRuntime 1730638800000 \<and>
   drawChart utcRuntime 1730635200000 800 600 timeData =
   drawChart utcRuntime 1730638800000 800 600 timeData"
proof -
  have same: "toDateString utcRuntime 1730635200000 = toDateString utcRuntime 1730638800000"
    by (simp add: utc_dates)
  show ?thesis
    using same drawChart_same_date [OF disjI1 [OF same], of 800 600 timeData] by simp
qed

section \<open>The price range of a flat series\<close>

lemma calculatePriceRange_shape:
  assumes "ohlc \<noteq> []"
  shows "\<exists>lo hi. calculatePriceRange ohlc scale =
           Some \<lparr>minPrice = lo, maxPrice = hi, priceRange = hi - lo\<rparr>"
  using assms
  by (auto simp: calculatePriceRange_def Math_min_Min Math_max_Max prices_Nil_iff split: prod.splits)

lemma calculatePriceRange_noLimits:
  assumes "ohlc \<noteq> []"
    and "scaleField scale minScale = None" and "scaleField scale maxScale = None"
  shows "\<exists>pr. calculatePriceRange ohlc scale = Some pr \<and>
     priceRange pr =
       (if truthy_bool (scaleField scale autoScale) then 1.1 else 1) *
       ((if truthy_number (scaleField scale scale_x) then the (scaleField scale scale_x) else 1) *
        (if truthy_number (scaleField scale scale_y) then the (scaleField scale scale_y) else 1)) *
       (Max (set (prices ohlc)) - Min (set (prices ohlc)))"
proof -
  define lo0 where "lo0 = Min (set (prices ohlc))"
  define hi0 where "hi0 = Max (set (prices ohlc))"
  define m :: real where "m = (if truthy_bool (scaleField scale autoScale) then 1.1 else 1)"
  define k where "k = (if truthy_number (scaleField scale scale_x) then the (scaleField scale scale_x) else 1) *
        (if truthy_number (scaleField scale scale_y) then the (scaleField scale scale_y) else 1)"
  have ne: "prices ohlc \<noteq> []" using assms(1) by (simp add: prices_Nil_iff)
  obtain lo1 hi1 where pad: "applyAutoScale scale (lo0, hi0) = (lo1, hi1)"
    by (cases "applyAutoScale scale (lo0, hi0)") auto
  have w1: "hi1 - lo1 = m * (hi0 - lo0)"
    using pad by (auto simp: applyAutoScale_def Let_def m_def field_simps split: if_splits)
  have mult: "applyMultiplier (scaleField scale scale_y)
                (applyMultiplier (scaleField scale scale_x) (lo1, hi1)) =
              ((lo1 + hi1) / 2 - (hi1 - lo1) * k / 2, (lo1 + hi1) / 2 + (hi1 - lo1) * k / 2)"
    unfolding applyMultiplier_twice Let_def k_def ..
  have res: "calculatePriceRange ohlc scale =
      Some \<lparr>minPrice = (lo1 + hi1) / 2 - (hi1 - lo1) * k / 2,
            maxPrice = (lo1 + hi1) / 2 + (hi1 - lo1) * k / 2,
            priceRange = ((lo1 + hi1) / 2 + (hi1 - lo1) * k / 2) -
                         ((lo1 + hi1) / 2 - (hi1 - lo1) * k / 2)\<rparr>"
    unfolding calculatePriceRange_def Math_min_Min [OF ne] Math_max_Max [OF ne]
      lo0_def [symmetric] hi0_def [symmetric]
    by (simp add: pad mult applyLimits_def assms(2,3))
  have "((lo1 + hi1) / 2 + (hi1 - lo1) * k / 2) - ((lo1 + hi1) / 2 - (hi1 - lo1) * k / 2) =
        (hi1 - lo1) * k"
    by (simp add: field_simps)
  also have "\<dots> = m * k * (hi0 - lo0)" unfolding w1 by simp
  finally have "((lo1 + hi1) / 2 + (hi1 - lo1) * k / 2) - ((lo1 + hi1) / 2 - (hi1 - lo1) * k / 2) =
        m * k * (hi0 - lo0)" .
  then show ?thesis
    using res unfolding m_def k_def lo0_def hi0_def by simp
qed

lemma Min_le_Max_prices:
  assumes "ohlc \<noteq> []"
  shows "Min (set (prices ohlc)) \<le> Max (set (prices ohlc))"
proof -
  obtain p where p: "p \<in> set (prices ohlc)"
    using assms by (cases "prices ohlc") (auto simp: prices_Nil_iff)
  have "Min (set (prices ohlc)) \<le> p" using p by simp
  also have "p \<le> Max (set (prices ohlc))" using p by simp
  finally show ?thesis .
qed

lemma pixelY_finite: "rangeP \<noteq> 0 \<Longrightarrow> \<exists>y. pixelY dimensions maxP rangeP price = Finite y"
  by (simp add: pixelY_def js_div_def)

text \<open>
  Claim C10, amended. For every non-empty series and every scale configuration the price
  range has \<open>range = max - min\<close>, and whenever the range is not 0 every price projects to
  a finite pixel row. No padding is applied to a single-price series. With no \<open>minScale\<close>
  or \<open>maxScale\<close> limit, \<open>range = m * k * (greatest price - least price)\<close> over the highs
  and lows of the series, where \<open>m\<close> is 1.1 under \<open>autoScale\<close> and 1 otherwise and \<open>k\<close> is
  the product of the \<open>x\<close> and \<open>y\<close> multipliers in effect. So when \<open>k\<close> is positive (in
  particular with no multiplier) the range is at least 0, and it is positive exactly when
  the series has two different prices.
\<close>

theorem calculatePriceRange_positive_iff:
  assumes "ohlc \<noteq> []"
  shows "\<exists>pr. calculatePriceRange ohlc scale = Some pr \<and>
     priceRange pr = maxPrice pr - minPrice pr \<and>
     (priceRange pr \<noteq> 0 \<longrightarrow>
        (\<forall>price. \<exists>y. pixelY dimensions (maxPrice pr) (priceRange pr) price = Finite y)) \<and>
     (scaleField scale minScale = None \<and> scaleField scale maxScale = None \<longrightarrow>
        (let k = (if truthy_number (scaleField scale scale_x) then the (scaleField scale scale_x) else 1) *
                 (if truthy_number (scaleField scale scale_y) then the (scaleField scale scale_y) else 1);
             m = (if truthy_bool (scaleField scale autoScale) then 1.1 else 1)
         in priceRange pr = m * k * (Max (set (prices ohlc)) - Min (set (prices ohlc))) \<and>
            (0 < k \<longrightarrow>
               0 \<le> priceRange pr \<and>
               (0 < priceRange pr \<longleftrightarrow> Min (set (prices ohlc)) < Max (set (prices ohlc))))))"
proof -
  define k where "k = (if truthy_number (scaleField scale scale_x) then the (scaleField scale scale_x) else 1) *
                 (if truthy_number (scaleField scale scale_y) then the (scaleField scale scale_y) else 1)"
  define m :: real where "m = (if truthy_bool (scaleField scale autoScale) then 1.1 else 1)"
  define w where "w = Max (set (prices ohlc)) - Min (set (prices ohlc))"
  obtain lo hi where pr: "calculatePriceRange ohlc scale =
      Some \<lparr>minPrice = lo, maxPrice = hi, priceRange = hi - lo\<rparr>"
    using calculatePriceRange_shape [OF assms] by blast
  let ?pr = "\<lparr>minPrice = lo, maxPrice = hi, priceRange = hi - lo\<rparr>"
  have a: "priceRange ?pr = maxPrice ?pr - minPrice ?pr" by simp
  have b: "priceRange ?pr \<noteq> 0 \<longrightarrow>
        (\<forall>price. \<exists>y. pixelY dimensions (maxPrice ?pr) (priceRange ?pr) price = Finite y)"
    using pixelY_finite by blast
  have mpos: "0 < m" by (simp add: m_def)
  have w0: "0 \<le> w" unfolding w_def using Min_le_Max_prices [OF assms] by simp
  have c: "priceRange ?pr = m * k * w \<and>
           (0 < k \<longrightarrow> 0 \<le> priceRange ?pr \<and>
               (0 < priceRange ?pr \<longleftrightarrow> Min (set (prices ohlc)) < Max (set (prices ohlc))))"
    if nl: "scaleField scale minScale = None \<and> scaleField scale maxScale = None"
  proof -
    from nl have n1: "scaleField scale minScale = None" and n2: "scaleField scale maxScale = None"
      by simp_all
    from calculatePriceRange_noLimits [OF assms n1 n2]
    obtain pr' where p1: "calculatePriceRange ohlc scale = Some pr'"
      and p2: "priceRange pr' = m * k * w"
      unfolding m_def k_def w_def by blast
    from p1 pr have "pr' = ?pr" by simp
    with p2 have r: "priceRange ?pr = m * k * w" by simp
    have "0 \<le> m * k * w" if "0 < k" using that mpos w0 by simp
    moreover have "0 < m * k * w \<longleftrightarrow> 0 < w" if "0 < k"
    proof -
      have "0 < m * k" using that mpos by simp
      then show ?thesis by (metis mult_pos_pos zero_less_mult_pos)
    qed
    ultimately show ?thesis using r by (auto simp: w_def)
  qed
  show ?thesis
    unfolding Let_def k_def [symmetric] m_def [symmetric] w_def [symmetric]
    using pr a b c unfolding w_def [symmetric] by blast
qed

lemma pixelY_flat: "pixelY dimensions p 0 p = NaN"
  by (simp add: pixelY_def js_div_def)

lemma sample_prices: "prices [candleA, candleB] = [110, 90, 120, 95]"
  by (simp add: prices_def candleA_def candleB_def)

lemma sample_limits:
  "calculatePriceRange [candleA, candleB] (Some scaleLimits) =
     Some \<lparr>minPrice = 120, maxPrice = 120, priceRange = 0\<rparr>"
  by (simp add: calculatePriceRange_def sample_prices scaleLimits_def scaleField_def
      applyAutoScale_def applyMultiplier_def applyLimits_def)

lemma sample_flip:
  "calculatePriceRange [candleA, candleB] (Some scaleFlip) =
     Some \<lparr>minPrice = 120, maxPrice = 90, priceRange = - 30\<rparr>"
  by (simp add: calculatePriceRange_def sample_prices scaleFlip_def scaleField_def
      applyAutoScale_def applyMultiplier_def applyLimits_def Let_def)

lemma sample_double:
  "calculatePriceRange [candleA, candleB] (Some scaleDouble) =
     Some \<lparr>minPrice = 72, maxPrice = 138, priceRange = 66\<rparr>"
  by (simp add: calculatePriceRange_def sample_prices scaleDouble_def scaleField_def
      applyAutoScale_def applyMultiplier_def applyLimits_def Let_def)

text \<open>
  Claim C10 does not hold as stated. A flat series is not padded: two candles at the
  single price 100 give the range 0, and every pixel row of the candlestick drawing is
  then \<open>0 / 0\<close>. The range is not positive for every other series either: on a series
  with prices from 90 to 120, equal limits \<open>minScale = maxScale = 120\<close> give the range 0,
  and the multiplier \<open>x = -1\<close> gives the range -30.
\<close>

theorem flat_series_zero_range_counterexample:
  "calculatePriceRange [candleF1, candleF2] None =
     Some \<lparr>minPrice = 100, maxPrice = 100, priceRange = 0\<rparr> \<and>
   Candlestick_render dims800 \<lparr>minPrice = 100, maxPrice = 100, priceRange = 0\<rparr> [candleF1, candleF2] =
     [\<lparr>openY = NaN, closeY = NaN, highY = NaN, lowY = NaN\<rparr>,
      \<lparr>openY = NaN, closeY = NaN, highY = NaN, lowY = NaN\<rparr>] \<and>
   calculatePriceRange [candleA, candleB] (Some scaleLimits) =
     Some \<lparr>minPrice = 120, maxPrice = 120, priceRange = 0\<rparr> \<and>
   calculatePriceRange [candleA, candleB] (Some scaleFlip) =
     Some \<lparr>minPrice = 120, maxPrice = 90, priceRange = - 30\<rparr>"
proof -
  have "noScaleOptions None" by (simp add: noScaleOptions_def scaleField_def)
  then have "calculatePriceRange [candleF1, candleF2] None =
     Some \<lparr>minPrice = 100, maxPrice = 100, priceRange = 0\<rparr>"
    by (simp add: calculatePriceRange_noScale prices_def candleF1_def candleF2_def)
  moreover have "Candlestick_render dims800 \<lparr>minPrice = 100, maxPrice = 100, priceRange = 0\<rparr> [candleF1, candleF2] =
     [\<lparr>openY = NaN, closeY = NaN, highY = NaN, lowY = NaN\<rparr>,
      \<lparr>openY = NaN, closeY = NaN, highY = NaN, lowY = NaN\<rparr>]"
    by (simp add: Candlestick_render_def candleRows_def candleF1_def candleF2_def pixelY_flat)
  ultimately show ?thesis using sample_limits sample_flip by simp
qed

theorem calculatePriceRange_positive_iff_witness:
  "[candleA, candleB] \<noteq> [] \<and>
   scaleField (Some scaleDouble) minScale = None \<and> scaleField (Some scaleDouble) maxScale = None \<and>
   truthy_number (scaleField (Some scaleDouble) scale_x) \<and>
   (0::real) < the (scaleField (Some scaleDouble) scale_x) * 1 \<and>
   calculatePriceRange [candleA, candleB] (Some scaleDouble) =
     Some \<lparr>minPrice = 72, maxPrice = 138, priceRange = 66\<rparr> \<and>
   Min (set (prices [candleA, candleB])) < Max (set (prices [candleA, candleB])) \<and>
   (\<exists>y. pixelY dims800 138 66 105 = Finite y)"
proof -
  have ne: "[candleA, candleB] \<noteq> []" by simp
  have f: "scaleField (Some scaleDouble) minScale = None" "scaleField (Some scaleDouble) maxScale = None"
    "truthy_number (scaleField (Some scaleDouble) scale_x)"
    "\<not> truthy_number (scaleField (Some scaleDouble) scale_y)"
    "truthy_bool (scaleField (Some scaleDouble) autoScale)"
    "the (scaleField (Some scaleDouble) scale_x) = 2"
    by (simp_all add: scaleField_def scaleDouble_def)
  have mm: "Min (set (prices [candleA, candleB])) < Max (set (prices [candleA, candleB]))"
    by (simp add: sample_prices)
  from calculatePriceRange_positive_iff [OF ne, of "Some scaleDouble" dims800]
  have "\<forall>price. \<exists>y. pixelY dims800 138 66 price = Finite y"
    unfolding sample_double by simp
  then have "\<exists>y. pixelY dims800 138 66 105 = Finite y" by blast
  then show ?thesis
    using ne f mm sample_double by simp
qed

section \<open>The price range behind each layer\<close>

lemma Renko_render_frame:
  assumes "calculateRenko ohlc 0.02 = Inr bricks"
  shows "Renko_render dimensions pr ohlc =
    Inr (map (\<lambda>block.
           \<lparr>block_openY = pixelY dimensions (Max (set (prices bricks)))
                             (Max (set (prices bricks)) - Min (set (prices bricks))) (open block),
            block_closeY = pixelY dimensions (Max (set (prices bricks)))
                             (Max (set (prices bricks)) - Min (set (prices bricks))) (close block),
            isUp = (direction block > 0)\<rparr>) bricks)"
proof (cases "bricks = []")
  case True
  then show ?thesis using assms by (simp add: Renko_render_def)
next
  case False
  then have "prices bricks \<noteq> []" by (simp add: prices_Nil_iff)
  then show ?thesis
    using assms False by (simp add: Renko_render_def Let_def Math_min_Min Math_max_Max)
qed

lemma renko_bricks:
  "calculateRenko [candleR1, candleR2] 0.02 =
     Inr [\<lparr>time = 2000, open = 100, high = 102, low = 100, close = 102, volume = None,
           direction = 1\<rparr>]"
proof -
  have step: "renkoCandle (1 / 50) candleR2 (100, []) =
      Inr (102, [\<lparr>time = 2000, open = 100, high = 102, low = 100, close = 102, volume = None,
                   direction = 1\<rparr>])"
    unfolding renkoCandle_def Let_def
    by (simp add: candleR2_def js_div_def)
  show ?thesis
    by (simp add: calculateRenko_def renkoLoop.simps candleR1_def step)
qed

lemma renko_frame:
  "calculatePriceRange
     [\<lparr>time = 2000, open = 100, high = 102, low = 100, close = 102, volume = None,
       direction = 1\<rparr>] None =
     Some \<lparr>minPrice = 100, maxPrice = 102, priceRange = 2\<rparr>"
proof -
  have "noScaleOptions None" by (simp add: noScaleOptions_def scaleField_def)
  then show ?thesis by (simp add: calculatePriceRange_noScale prices_def)
qed

lemma renkoData_range:
  "calculatePriceRange [candleR1, candleR2] None =
     Some \<lparr>minPrice = 100, maxPrice = 103, priceRange = 3\<rparr>"
proof -
  have "noScaleOptions None" by (simp add: noScaleOptions_def scaleField_def)
  then show ?thesis
    by (simp add: calculatePriceRange_noScale prices_def candleR1_def candleR2_def)
qed

lemma renkoData_shape:
  "Renko_render dims800 pr [candleR1, candleR2] =
     Inr [\<lparr>block_openY = Finite 560, block_closeY = Finite 60, isUp = True\<rparr>]"
  unfolding Renko_render_frame [OF renko_bricks]
  by (simp add: prices_def pixelY_def js_div_def dims800_def)

lemma renkoData_labels:
  "drawPriceLabels dims800 \<lparr>minPrice = 100, maxPrice = 103, priceRange = 3\<rparr> =
     [(100, Finite 560), (100.6, Finite 460), (101.2, Finite 360), (101.8, Finite 260),
      (102.4, Finite 160), (103, Finite 60)]"
proof -
  have six: "[0..<6] = [0, 1, 2, 3, 4, 5]" by (simp add: upt_rec)
  show ?thesis
    unfolding drawPriceLabels_def six Let_def
    by (simp add: pixelY_def js_div_def dims800_def)
qed

lemma renkoData_drawChart:
  "drawChart utcRuntime 0 800 600 renkoData =
     Inr (Some
       \<lparr>primaryShape = BrickShape [\<lparr>block_openY = Finite 560, block_closeY = Finite 60, isUp = True\<rparr>],
        vwapRows = None,
        levelRows = Some [Finite 60],
        priceLabels = [(100, Finite 560), (100.6, Finite 460), (101.2, Finite 360),
                       (101.8, Finite 260), (102.4, Finite 160), (103, Finite 60)],
        timeLabels = []\<rparr>)"
proof -
  have dims: "chartDimensions 800 600 (data_config renkoData) = dims800"
    by (simp add: chartDimensions_def renkoData_def dims800_def orZero_def)
  have lv: "Levels_render dims800 \<lparr>minPrice = 100, maxPrice = 103, priceRange = 3\<rparr> [103] = [Finite 60]"
    by (simp add: Levels_render_def pixelY_def js_div_def dims800_def)
  have f: "data_ohlc renkoData = [candleR1, candleR2]" "cfg_scale (data_config renkoData) = None"
    "chartType (data_config renkoData) = Some Renko" "showVWAP (data_config renkoData) = None"
    "showTimeAxis (data_config renkoData) = Some False" "data_levels renkoData = Some [103]"
    by (simp_all add: renkoData_def)
  show ?thesis
    unfolding drawChart_def Let_def dims f
    by (simp add: renkoData_range drawChartType_def f renkoData_shape renkoData_labels lv
        drawTimeLabels_def)
qed

lemma renko_frame_labels:
  "drawPriceLabels dims800 \<lparr>minPrice = 100, maxPrice = 102, priceRange = 2\<rparr> =
     [(100, Finite 560), (100.4, Finite 460), (100.8, Finite 360), (101.2, Finite 260),
      (101.6, Finite 160), (102, Finite 60)]"
proof -
  have six: "[0..<6] = [0, 1, 2, 3, 4, 5]" by (simp add: upt_rec)
  show ?thesis
    unfolding drawPriceLabels_def six Let_def
    by (simp add: pixelY_def js_div_def dims800_def)
qed

text \<open>
  Claim C9 at the series 100, 103 drawn as Renko with a horizontal level at 103. The
  claim puts the primary shape, the axes and the levels of a renko render in one frame,
  the least and greatest price of the bricks, here 100 to 102. The code draws the single
  brick in that frame: it closes, at 102, on the top row 60. The axis labels and the
  level are projected through the range 100 to 103 of the original candles: the top row
  60 is labelled 103 and carries the level at 103, and the labels are not those of the
  bricks' range.
\<close>

theorem renko_render_mixed_frames:
  "calculateRenko [candleR1, candleR2] 0.02 =
     Inr [\<lparr>time = 2000, open = 100, high = 102, low = 100, close = 102, volume = None,
           direction = 1\<rparr>] \<and>
   calculatePriceRange
     [\<lparr>time = 2000, open = 100, high = 102, low = 100, close = 102, volume = None,
       direction = 1\<rparr>] None =
     Some \<lparr>minPrice = 100, maxPrice = 102, priceRange = 2\<rparr> \<and>
   drawChart utcRuntime 0 800 600 renkoData =
     Inr (Some
       \<lparr>primaryShape = BrickShape [\<lparr>block_openY = Finite 560, block_closeY = Finite 60, isUp = True\<rparr>],
        vwapRows = None,
        levelRows = Some [Finite 60],
        priceLabels = [(100, Finite 560), (100.6, Finite 460), (101.2, Finite 360),
                       (101.8, Finite 260), (102.4, Finite 160), (103, Finite 60)],
        timeLabels = []\<rparr>) \<and>
   drawPriceLabels dims800 \<lparr>minPrice = 100, maxPrice = 102, priceRange = 2\<rparr> \<noteq>
     [(100, Finite 560), (100.6, Finite 460), (101.2, Finite 360),
      (101.8, Finite 260), (102.4, Finite 160), (103, Finite 60)]"
proof -
  have "drawPriceLabels dims800 \<lparr>minPrice = 100, maxPrice = 102, priceRange = 2\<rparr> \<noteq>
     [(100, Finite 560), (100.6, Finite 460), (101.2, Finite 360),
      (101.8, Finite 260), (102.4, Finite 160), (103, Finite 60)]"
    unfolding renko_frame_labels by simp
  then show ?thesis
    using renko_bricks renko_frame renkoData_drawChart by blast
qed

end
